theory Spec2Isabelle
  imports Main "HOL-Library.Word"
begin

unbundle bit_operations_syntax

section \<open>Data model\<close>

text \<open>
  The driver keeps all of its state in one global context \<^verbatim>\<open>g_ctx\<close>. The model
  passes that context explicitly. Fixed-width C integers are words, so that
  arithmetic wraps as it does on the target; C \<^verbatim>\<open>int\<close> values that are only
  compared or used as indices are \<open>int\<close>. Diagnostic output (\<^verbatim>\<open>printf\<close>)
  and the \<^verbatim>\<open>verbose\<close> level that only guards it are left out.
\<close>

type_synonym u8 = "8 word"
type_synonym u16 = "16 word"
type_synonym u32 = "32 word"

subsection \<open>Constants of \<^verbatim>\<open>winc_lib.h\<close>\<close>

definition WINC_MESH_MAX_NODES :: nat where "WINC_MESH_MAX_NODES = 8"
definition WINC_MESH_BEACON_INTERVAL_MS :: u32 where "WINC_MESH_BEACON_INTERVAL_MS = 5000"
definition WINC_MESH_ROUTE_TIMEOUT_MS :: u32 where "WINC_MESH_ROUTE_TIMEOUT_MS = 30000"

definition MESH_MSG_BEACON :: u8 where "MESH_MSG_BEACON = 1"
definition MESH_MSG_DATA :: u8 where "MESH_MSG_DATA = 2"
definition MESH_MSG_ROUTE_REQ :: u8 where "MESH_MSG_ROUTE_REQ = 3"

subsection \<open>Routing table\<close>

text \<open>One slot of \<^verbatim>\<open>g_ctx.mesh.routes\<close>.\<close>

record route_entry =
  node_id :: u8
  next_hop :: u8
  hop_count :: u8
  last_seen :: u32
  active :: bool

text \<open>
  The anonymous struct \<^verbatim>\<open>g_ctx.mesh\<close>. The routing table is a list that holds
  \<^verbatim>\<open>WINC_MESH_MAX_NODES\<close> slots. The application's data callback is a function
  pointer; the model stores a tag for it (\<open>None\<close> is the null pointer) and records
  every call in a log of the context.
\<close>

record mesh_t =
  my_node_id :: u8
  my_name :: "u8 list"
  enabled :: bool
  udp_socket :: int
  routes :: "route_entry list"
  route_count :: u8
  seq_num :: u16
  last_beacon :: u32
  data_callback :: "nat option"

section \<open>Routing-table functions\<close>

text \<open>
  The scan of \<^verbatim>\<open>mesh_update_route\<close>: it walks all slots, stops at the first
  active slot for the node (\<^verbatim>\<open>existing\<close>), and remembers the first inactive slot
  seen before that (\<^verbatim>\<open>free_slot\<close>). The result is the pair
  \<open>(existing, free_slot)\<close>, each \<open>-1\<close> when not found.
\<close>

function update_scan :: "route_entry list \<Rightarrow> u8 \<Rightarrow> nat \<Rightarrow> int \<Rightarrow> int \<times> int" where
  "update_scan rs nid i free_slot =
     (if i < WINC_MESH_MAX_NODES then
        (if active (rs ! i) \<and> node_id (rs ! i) = nid then (int i, free_slot)
         else update_scan rs nid (Suc i)
                (if \<not> active (rs ! i) \<and> free_slot < 0 then int i else free_slot))
      else (-1, free_slot))"
  by pat_completeness auto
termination
  by (relation "measure (\<lambda>(rs, nid, i, free_slot). WINC_MESH_MAX_NODES - i)") auto

declare update_scan.simps [simp del]

text \<open>\<^verbatim>\<open>mesh_update_route(node_id, next_hop, hop_count)\<close>; \<open>now\<close> is the clock reading.\<close>

definition mesh_update_route :: "u8 \<Rightarrow> u8 \<Rightarrow> u8 \<Rightarrow> u32 \<Rightarrow> mesh_t \<Rightarrow> mesh_t" where
  "mesh_update_route nid nh hc now m =
     (case update_scan (routes m) nid 0 (-1) of (existing, free_slot) \<Rightarrow>
        if 0 \<le> existing then
          (if hc \<le> hop_count (routes m ! nat existing) then
             m\<lparr>routes := (routes m)[nat existing :=
                  (routes m ! nat existing)\<lparr>next_hop := nh, hop_count := hc, last_seen := now\<rparr>]\<rparr>
           else m)
        else if 0 \<le> free_slot then
          m\<lparr>routes := (routes m)[nat free_slot :=
                 (routes m ! nat free_slot)\<lparr>node_id := nid, next_hop := nh, hop_count := hc,
                                             last_seen := now, active := True\<rparr>],
            route_count := (if uint (route_count m) \<le> free_slot then word_of_int (free_slot + 1)
                            else route_count m)\<rparr>
        else m)"

text \<open>
  The loop of \<^verbatim>\<open>mesh_find_route\<close> over the first \<^verbatim>\<open>route_count\<close> slots; it
  carries \<^verbatim>\<open>best\<close> and \<^verbatim>\<open>min_hops\<close>.
\<close>

function find_best :: "route_entry list \<Rightarrow> u8 \<Rightarrow> nat \<Rightarrow> nat \<Rightarrow> int \<Rightarrow> u8 \<Rightarrow> int" where
  "find_best rs dst n i best min_hops =
     (if i < n then
        (if active (rs ! i) \<and> node_id (rs ! i) = dst \<and> hop_count (rs ! i) < min_hops
         then find_best rs dst n (Suc i) (int i) (hop_count (rs ! i))
         else find_best rs dst n (Suc i) best min_hops)
      else best)"
  by pat_completeness auto
termination
  by (relation "measure (\<lambda>(rs, dst, n, i, best, min_hops). n - i)") auto

declare find_best.simps [simp del]

definition mesh_find_route :: "mesh_t \<Rightarrow> u8 \<Rightarrow> int" where
  "mesh_find_route m dst =
     (let best = find_best (routes m) dst (unat (route_count m)) 0 (-1) 255
      in if 0 \<le> best then uint (next_hop (routes m ! nat best)) else -1)"

text \<open>The expiry loop at the end of \<^verbatim>\<open>winc_mesh_process\<close>.\<close>

function timeout_routes :: "u32 \<Rightarrow> nat \<Rightarrow> nat \<Rightarrow> route_entry list \<Rightarrow> route_entry list" where
  "timeout_routes now n i rs =
     (if i < n then
        timeout_routes now n (Suc i)
          (if active (rs ! i) \<and> WINC_MESH_ROUTE_TIMEOUT_MS < now - last_seen (rs ! i)
           then rs[i := (rs ! i)\<lparr>active := False\<rparr>] else rs)
      else rs)"
  by pat_completeness auto
termination
  by (relation "measure (\<lambda>(now, n, i, rs). n - i)") auto

declare timeout_routes.simps [simp del]




section \<open>Socket layer (\<^verbatim>\<open>winc_lib.c\<close>)\<close>

subsection \<open>Constants\<close>

definition MIN_TCP_SOCK :: nat where "MIN_TCP_SOCK = 0"
definition MAX_TCP_SOCK :: nat where "MAX_TCP_SOCK = 7"
definition MIN_UDP_SOCK :: nat where "MIN_UDP_SOCK = 7"
definition MAX_UDP_SOCK :: nat where "MAX_UDP_SOCK = 10"
definition MAX_SOCKETS :: nat where "MAX_SOCKETS = 10"

definition IP_FAMILY :: u16 where "IP_FAMILY = 2"

definition STATE_CLOSED :: int where "STATE_CLOSED = 0"
definition STATE_BINDING :: int where "STATE_BINDING = 1"
definition STATE_BOUND :: int where "STATE_BOUND = 2"
definition STATE_ACCEPTED :: int where "STATE_ACCEPTED = 3"

definition HIF_HDR_SIZE :: int where "HIF_HDR_SIZE = 8"
definition UDP_DATA_OSET :: int where "UDP_DATA_OSET = 68"
definition REQ_DATA :: u16 where "REQ_DATA = 0x80"

definition GID_WIFI :: u16 where "GID_WIFI = 1"
definition GID_IP :: u16 where "GID_IP = 2"

definition GIDOP :: "u16 \<Rightarrow> u16 \<Rightarrow> u16" where
  "GIDOP gid opc = push_bit 8 gid OR opc"

definition GOP_STATE_CHANGE :: u16 where "GOP_STATE_CHANGE = GIDOP GID_WIFI 44"
definition GOP_DHCP_CONF :: u16 where "GOP_DHCP_CONF = GIDOP GID_WIFI 50"
definition GOP_BIND :: u16 where "GOP_BIND = GIDOP GID_IP 65"
definition GOP_ACCEPT :: u16 where "GOP_ACCEPT = GIDOP GID_IP 67"
definition GOP_RECV :: u16 where "GOP_RECV = GIDOP GID_IP 70"
definition GOP_SENDTO :: u16 where "GOP_SENDTO = GIDOP GID_IP 71"
definition GOP_RECVFROM :: u16 where "GOP_RECVFROM = GIDOP GID_IP 72"

text \<open>
  \<^verbatim>\<open>GOP_AP_ENABLE\<close>, \<^verbatim>\<open>GOP_DHCP_CONF_AP\<close> and \<^verbatim>\<open>GOP_AP_ASSOC_INFO\<close> are used by
  \<^verbatim>\<open>check_sock\<close> and \<^verbatim>\<open>interrupt_handler\<close> but their \<^verbatim>\<open>#define\<close>s are not in
  the sources at hand. The functions that use them take the three codes as a
  parameter.
\<close>

record ap_codes =
  GOP_AP_ENABLE :: u16
  GOP_DHCP_CONF_AP :: u16
  GOP_AP_ASSOC_INFO :: u16

subsection \<open>Structures\<close>

record SOCK_ADDR =
  family :: u16
  port :: u16
  ip :: u32

text \<open>
  A \<^verbatim>\<open>SOCK_HANDLER\<close> is a function pointer. The model stores a tag that names
  the function; the handlers defined beside the socket layer are the two echo
  handlers and the mesh packet handler.
\<close>

datatype SOCK_HANDLER = H_tcp_echo | H_udp_echo | H_mesh_packet

record SOCKET =
  addr :: SOCK_ADDR
  localport :: u16
  session :: u16
  state :: int
  conn_sock :: int
  hif_data_addr :: u32
  handler :: "SOCK_HANDLER option"

text \<open>The command structures; field names carry the name of the C variable that
  holds the command in the source (\<^verbatim>\<open>bc\<close>, \<^verbatim>\<open>lc\<close>, \<^verbatim>\<open>rc\<close>, \<^verbatim>\<open>sc\<close>, \<^verbatim>\<open>cc\<close>) as a
  prefix.\<close>

record BIND_CMD =
  bc_saddr :: SOCK_ADDR
  bc_sock :: u8
  bc_x :: u8
  bc_session :: u16

record LISTEN_CMD =
  lc_sock :: u8
  lc_backlog :: u8
  lc_session :: u16

record RECV_CMD =
  rc_timeout :: u32
  rc_sock :: u8
  rc_x :: u8
  rc_session :: u16

record SENDTO_CMD =
  sc_sock :: u8
  sc_x :: u8
  sc_len :: u16
  sc_saddr :: SOCK_ADDR
  sc_session :: u16
  sc_x2 :: u16

record CLOSE_CMD =
  cc_sock :: u8
  cc_x :: u8
  cc_session :: u16

datatype hif_cmd =
  Bind BIND_CMD | Listen LISTEN_CMD | Recv RECV_CMD | Recvfrom RECV_CMD
  | Send SENDTO_CMD | Sendto SENDTO_CMD | Close CLOSE_CMD

text \<open>
  The arguments of one call \<^verbatim>\<open>hif_put(gop, dp1, dlen1, dp2, dlen2, oset)\<close>: the
  command \<open>dp1\<close>, and the data \<open>dp2\<close> (the memory the pointer refers to; \<open>None\<close>
  is the null pointer) that \<^verbatim>\<open>hif_put\<close> writes \<open>oset\<close> bytes after the start of the
  command in the same message.
\<close>

record hif_msg =
  gop :: u16
  dp1 :: hif_cmd
  dlen1 :: int
  dp2 :: "u8 list option"
  dlen2 :: int
  oset :: int

text \<open>
  \<^verbatim>\<open>RESP_MSG\<close> is a union; the model has one field for each member that the code
  reads (\<^verbatim>\<open>val\<close>, \<^verbatim>\<open>dhcp.self\<close>, \<^verbatim>\<open>bind.sock\<close>, \<^verbatim>\<open>accept.listen_sock\<close>,
  \<^verbatim>\<open>accept.conn_sock\<close>, and \<^verbatim>\<open>recv.addr\<close>, \<^verbatim>\<open>recv.dlen\<close>, \<^verbatim>\<open>recv.oset\<close>,
  \<^verbatim>\<open>recv.sock\<close>). The members overlap in memory; the model relates them in no way,
  so a statement about every \<open>RESP_MSG\<close> covers every content of the union.
\<close>

record RESP_MSG =
  val :: int
  dhcp_self :: u32
  bind_sock :: u8
  accept_listen_sock :: u8
  accept_conn_sock :: u8
  recv_addr :: SOCK_ADDR
  recv_dlen :: u16
  recv_oset :: u16
  recv_sock :: u8

record connection_state_t =
  connected :: bool
  dhcp_done :: bool
  ap_mode :: bool
  my_ip :: u32

text \<open>
  The global context. Beside the fields of \<^verbatim>\<open>winc_ctx_t\<close> that the modelled
  functions use, it holds the function-local \<^verbatim>\<open>static\<close> session counter of
  \<^verbatim>\<open>open_sock_server\<close> and the model of the world outside:
  \<^item> \<open>hif_log\<close>: every call of \<^verbatim>\<open>hif_put\<close>, in order;
  \<^item> \<open>hif_ok\<close>: whether the \<open>n\<close>-th call of \<^verbatim>\<open>hif_put\<close> succeeds on the bus;
  \<^item> \<open>rx_data\<close>: the contents of the caller's receive buffer after
    \<^verbatim>\<open>hif_get(addr, buf, len)\<close>, counted from its start (the bytes read, followed
    by what the buffer held), \<open>None\<close> when the transfer fails;
  \<^item> \<open>callback_log\<close>: every call of the mesh data callback, with the callback's
    tag, the source node, the memory at the data pointer and the length passed.
\<close>

record winc_ctx_t =
  sockets :: "SOCKET list"
  resp_msg :: RESP_MSG
  mesh :: mesh_t
  connection_state :: connection_state_t
  session_static :: u16
  hif_log :: "hif_msg list"
  hif_ok :: "nat \<Rightarrow> bool"
  rx_data :: "u32 \<Rightarrow> int \<Rightarrow> u8 list option"
  callback_log :: "(nat \<times> u8 \<times> u8 list \<times> u16) list"

subsection \<open>Commands\<close>

definition swap16 :: "u16 \<Rightarrow> u16" where
  "swap16 v = drop_bit 8 v OR push_bit 8 (v AND 0xff)"

text \<open>
  \<^verbatim>\<open>hif_put\<close> is the boundary to the bus: the model records the call and returns
  what the bus gives. What \<^verbatim>\<open>hif_put\<close> puts on the bus is described by three
  functions: \<open>hif_dlen\<close> is the length it declares for the message, \<open>hif_hdr\<close> the
  eight bytes of the header, and \<open>hif_writes\<close> the bulk writes it issues when every
  transfer succeeds, for the address \<open>a\<close> that the chip gives in \<^verbatim>\<open>RCV_CTRL_REG4\<close>:
  the header at \<open>a\<close>, the command behind the header, and the data \<open>oset\<close> bytes
  behind the start of the command.
\<close>

definition hif_dlen :: "hif_msg \<Rightarrow> int" where
  "hif_dlen msg = HIF_HDR_SIZE + (if dlen2 msg \<noteq> 0 then oset msg + dlen2 msg else dlen1 msg)"

definition hif_hdr :: "hif_msg \<Rightarrow> u8 list" where
  "hif_hdr msg =
     (let dlen = (word_of_int (hif_dlen msg) :: u32)
      in [ucast (drop_bit 8 (gop msg)), ucast (gop msg) AND 0x7f,
          ucast dlen, ucast (drop_bit 8 dlen), 0, 0, 0, 0])"

datatype spi_write =
  Write_hdr u32 "u8 list" | Write_cmd u32 hif_cmd int | Write_data u32 "u8 list" int

definition hif_writes :: "u32 \<Rightarrow> hif_msg \<Rightarrow> spi_write list" where
  "hif_writes a msg =
     [Write_hdr a (hif_hdr msg), Write_cmd (a + word_of_int HIF_HDR_SIZE) (dp1 msg) (dlen1 msg)] @
     (case dp2 msg of
        None \<Rightarrow> []
      | Some d \<Rightarrow>
          if dlen2 msg \<noteq> 0
          then [Write_data (a + word_of_int HIF_HDR_SIZE + word_of_int (oset msg)) d (dlen2 msg)]
          else [])"

definition hif_put :: "hif_msg \<Rightarrow> winc_ctx_t \<Rightarrow> bool \<times> winc_ctx_t" where
  "hif_put msg c = (hif_ok c (length (hif_log c)), c\<lparr>hif_log := hif_log c @ [msg]\<rparr>)"

text \<open>
  The functions below index \<^verbatim>\<open>g_ctx.sockets\<close> with their \<^verbatim>\<open>uint8_t sock\<close> argument
  without a check. An access outside the pool is undefined behaviour in C; in the
  model such a call has the result \<open>None\<close>.
\<close>

definition sock_upd :: "nat \<Rightarrow> (SOCKET \<Rightarrow> SOCKET) \<Rightarrow> winc_ctx_t \<Rightarrow> winc_ctx_t" where
  "sock_upd s f c = c\<lparr>sockets := (sockets c)[s := f (sockets c ! s)]\<rparr>"

definition sock_state :: "u8 \<Rightarrow> int \<Rightarrow> winc_ctx_t \<Rightarrow> winc_ctx_t" where
  "sock_state s news c =
     (if unat s < MAX_SOCKETS then sock_upd (unat s) (\<lambda>sp. sp\<lparr>state := news\<rparr>) c else c)"

definition put_sock_bind :: "u8 \<Rightarrow> u16 \<Rightarrow> winc_ctx_t \<Rightarrow> (bool \<times> winc_ctx_t) option" where
  "put_sock_bind s prt c =
     (if unat s < MAX_SOCKETS then
        (let bc = \<lparr>bc_saddr = \<lparr>family = IP_FAMILY, port = swap16 prt, ip = 0\<rparr>,
                   bc_sock = s, bc_x = 0, bc_session = session (sockets c ! unat s)\<rparr>;
             c1 = sock_upd (unat s) (\<lambda>sp. sp\<lparr>addr := bc_saddr bc\<rparr>) c
         in Some (hif_put \<lparr>gop = GOP_BIND, dp1 = Bind bc, dlen1 = 12, dp2 = None,
                           dlen2 = 0, oset = 0\<rparr> c1))
      else None)"





text \<open>
  The command that \<^verbatim>\<open>put_sock_sendto\<close> builds from the socket \<^verbatim>\<open>sp\<close>: the
  destination is the stored remote address, with the broadcast address and the local
  port in place of an address and a port that are zero.
\<close>

definition sendto_cmd :: "SOCKET \<Rightarrow> u8 \<Rightarrow> int \<Rightarrow> SENDTO_CMD" where
  "sendto_cmd sp s len =
     (let dest_ip = (if ip (addr sp) = 0 then 0xFFFFFFFF else ip (addr sp));
          dest_port = (if port (addr sp) = 0 then localport sp else port (addr sp))
      in \<lparr>sc_sock = s, sc_x = 0, sc_len = word_of_int len,
          sc_saddr = \<lparr>family = family (addr sp), port = swap16 dest_port, ip = dest_ip\<rparr>,
          sc_session = session sp, sc_x2 = 0\<rparr>)"

definition put_sock_sendto :: "u8 \<Rightarrow> u8 list \<Rightarrow> int \<Rightarrow> winc_ctx_t \<Rightarrow> (bool \<times> winc_ctx_t) option" where
  "put_sock_sendto s data len c =
     (if unat s < MAX_SOCKETS then
        Some (hif_put \<lparr>gop = GOP_SENDTO OR REQ_DATA,
                dp1 = Sendto (sendto_cmd (sockets c ! unat s) s len), dlen1 = 16,
                dp2 = Some data, dlen2 = len, oset = UDP_DATA_OSET\<rparr> c)
      else None)"

text \<open>\<^verbatim>\<open>memset(&g_ctx.sockets[sock], 0, sizeof(SOCKET))\<close> gives the closed socket.\<close>

definition zero_socket :: SOCKET where
  "zero_socket = \<lparr>addr = \<lparr>family = 0, port = 0, ip = 0\<rparr>, localport = 0, session = 0,
                   state = 0, conn_sock = 0, hif_data_addr = 0, handler = None\<rparr>"



subsection \<open>Opening a socket\<close>

text \<open>
  The loop of \<^verbatim>\<open>open_sock_server\<close> from slot \<open>s\<close> up to, and not including,
  \<open>smax\<close>. The result is the value returned and the context.
\<close>

function open_sock_loop ::
  "int \<Rightarrow> SOCK_HANDLER option \<Rightarrow> nat \<Rightarrow> nat \<Rightarrow> winc_ctx_t \<Rightarrow> (int \<times> winc_ctx_t) option" where
  "open_sock_loop portnum h smax s c =
     (if s < smax then
        (if state (sockets c ! s) = 0 then
           (let c1 = sock_upd s (\<lambda>sp. sp\<lparr>localport := word_of_int portnum\<rparr>) c;
                c2 = (sock_upd s (\<lambda>sp. sp\<lparr>session := session_static c1\<rparr>) c1)
                       \<lparr>session_static := session_static c1 + 1\<rparr>;
                c3 = sock_upd s (\<lambda>sp. sp\<lparr>handler := h\<rparr>) c2;
                c4 = sock_state (word_of_nat s) STATE_BINDING c3
            in if dhcp_done (connection_state c4) then
                 (case put_sock_bind (word_of_nat s) (word_of_int portnum) c4 of
                    None \<Rightarrow> None
                  | Some (ok, c5) \<Rightarrow> Some (int s, c5))
               else Some (int s, c4))
         else open_sock_loop portnum h smax (Suc s) c)
      else Some (-1, c))"
  by pat_completeness auto
termination
  by (relation "measure (\<lambda>(portnum, h, smax, s, c). smax - s)") auto

declare open_sock_loop.simps [simp del]

definition open_sock_server ::
  "int \<Rightarrow> bool \<Rightarrow> SOCK_HANDLER option \<Rightarrow> winc_ctx_t \<Rightarrow> (int \<times> winc_ctx_t) option" where
  "open_sock_server portnum tcp h c =
     open_sock_loop portnum h (if tcp then MAX_TCP_SOCK else MAX_UDP_SOCK)
       (if tcp then MIN_TCP_SOCK else MIN_UDP_SOCK) c"

section \<open>Mesh layer on the context (\<^verbatim>\<open>winc_mesh.c\<close>)\<close>

subsection \<open>Packets\<close>

text \<open>
  \<^verbatim>\<open>winc_mesh_hdr_t\<close> is a packed struct of eight bytes; the target is
  little-endian. The hop count and sequence number carry the prefix \<open>hdr\<close> to keep
  them apart from the fields of the routing table and of the mesh state.
\<close>

record winc_mesh_hdr_t =
  msg_type :: u8
  src_node :: u8
  dst_node :: u8
  hdr_hop_count :: u8
  hdr_seq_num :: u16
  payload_len :: u16

definition sizeof_hdr :: nat where "sizeof_hdr = 8"
definition sizeof_beacon :: nat where "sizeof_beacon = 34"

definition u16_bytes :: "u16 \<Rightarrow> u8 list" where
  "u16_bytes w = [ucast w, ucast (drop_bit 8 w)]"

definition u16_of :: "u8 \<Rightarrow> u8 \<Rightarrow> u16" where
  "u16_of lo hi = ucast lo OR push_bit 8 (ucast hi)"

definition hdr_bytes :: "winc_mesh_hdr_t \<Rightarrow> u8 list" where
  "hdr_bytes h = [msg_type h, src_node h, dst_node h, hdr_hop_count h]
                 @ u16_bytes (hdr_seq_num h) @ u16_bytes (payload_len h)"

text \<open>The cast \<^verbatim>\<open>(winc_mesh_hdr_t*)buf\<close>: the header read from the start of a buffer.\<close>

definition hdr_of :: "u8 list \<Rightarrow> winc_mesh_hdr_t" where
  "hdr_of buf = \<lparr>msg_type = buf ! 0, src_node = buf ! 1, dst_node = buf ! 2,
                  hdr_hop_count = buf ! 3, hdr_seq_num = u16_of (buf ! 4) (buf ! 5),
                  payload_len = u16_of (buf ! 6) (buf ! 7)\<rparr>"

text \<open>
  The cast \<^verbatim>\<open>(winc_mesh_beacon_t*)buf\<close>: after the header come \<^verbatim>\<open>node_id\<close> (offset
  8), \<^verbatim>\<open>node_name[16]\<close> (offset 9), \<^verbatim>\<open>neighbors[8]\<close> (offset 25) and
  \<^verbatim>\<open>neighbor_count\<close> (offset 33). The loop of \<^verbatim>\<open>mesh_handle_beacon\<close> reads
  \<^verbatim>\<open>neighbors[i]\<close> for every \<open>i\<close> below the count it received, so it reads the
  buffer at offset \<open>25 + i\<close> also for \<open>i\<close> above 7.
\<close>

definition beacon_node_id :: "u8 list \<Rightarrow> u8" where "beacon_node_id buf = buf ! 8"
definition beacon_neighbor :: "u8 list \<Rightarrow> nat \<Rightarrow> u8" where "beacon_neighbor buf i = buf ! (25 + i)"
definition beacon_neighbor_count :: "u8 list \<Rightarrow> u8" where "beacon_neighbor_count buf = buf ! 33"


subsection \<open>Initialisation of the table\<close>

text \<open>
  The part of \<^verbatim>\<open>winc_mesh_init\<close> that initialises the routing state: the table
  is zeroed, and the route count, the sequence number and the beacon time are set to 0.
\<close>

definition mesh_table_reset :: "mesh_t \<Rightarrow> mesh_t" where
  "mesh_table_reset m =
     m\<lparr>routes := replicate WINC_MESH_MAX_NODES
                    \<lparr>node_id = 0, next_hop = 0, hop_count = 0, last_seen = 0, active = False\<rparr>,
       route_count := 0, seq_num := 0, last_beacon := 0\<rparr>"

subsection \<open>Beacons\<close>

function beacon_neighbors_loop :: "u32 \<Rightarrow> u8 list \<Rightarrow> nat \<Rightarrow> mesh_t \<Rightarrow> mesh_t" where
  "beacon_neighbors_loop now buf i m =
     (if i < unat (beacon_neighbor_count buf) then
        (if beacon_neighbor buf i = my_node_id m then beacon_neighbors_loop now buf (Suc i) m
         else beacon_neighbors_loop now buf (Suc i)
                (mesh_update_route (beacon_neighbor buf i) (beacon_node_id buf) 2 now m))
      else m)"
  by pat_completeness auto
termination
  by (relation "measure (\<lambda>(now, buf, i, m). unat (beacon_neighbor_count buf) - i)") auto

declare beacon_neighbors_loop.simps [simp del]

definition mesh_handle_beacon :: "u32 \<Rightarrow> u8 list \<Rightarrow> mesh_t \<Rightarrow> mesh_t" where
  "mesh_handle_beacon now buf m =
     beacon_neighbors_loop now buf 0
       (mesh_update_route (beacon_node_id buf) (beacon_node_id buf) 1 now m)"

text \<open>The neighbour list of \<^verbatim>\<open>mesh_send_beacon\<close>; \<^verbatim>\<open>idx\<close> is the length of \<open>acc\<close>.\<close>

function collect_neighbors :: "route_entry list \<Rightarrow> nat \<Rightarrow> nat \<Rightarrow> u8 list \<Rightarrow> u8 list" where
  "collect_neighbors rs n i acc =
     (if i < n \<and> length acc < WINC_MESH_MAX_NODES then
        collect_neighbors rs n (Suc i)
          (if active (rs ! i) \<and> hop_count (rs ! i) = 1 then acc @ [node_id (rs ! i)] else acc)
      else acc)"
  by pat_completeness auto
termination
  by (relation "measure (\<lambda>(rs, n, i, acc). n - i)") auto

declare collect_neighbors.simps [simp del]

text \<open>\<^verbatim>\<open>strncpy(dst, src, n)\<close> into a zeroed destination of \<open>n + 1\<close> bytes.\<close>

definition strncpy_zeroed :: "nat \<Rightarrow> u8 list \<Rightarrow> u8 list" where
  "strncpy_zeroed n src =
     (let s = takeWhile (\<lambda>b. b \<noteq> 0) (take n src) in s @ replicate (Suc n - length s) 0)"

definition beacon_bytes :: "mesh_t \<Rightarrow> u8 list" where
  "beacon_bytes m =
     (let nbrs = collect_neighbors (routes m) (unat (route_count m)) 0 []
      in hdr_bytes \<lparr>msg_type = MESH_MSG_BEACON, src_node = my_node_id m, dst_node = 0xFF,
                    hdr_hop_count = 0, hdr_seq_num = seq_num m,
                    payload_len = word_of_nat (sizeof_beacon - sizeof_hdr)\<rparr>
         @ [my_node_id m] @ strncpy_zeroed 15 (my_name m)
         @ nbrs @ replicate (WINC_MESH_MAX_NODES - length nbrs) 0
         @ [word_of_nat (length nbrs)])"

definition mesh_upd :: "(mesh_t \<Rightarrow> mesh_t) \<Rightarrow> winc_ctx_t \<Rightarrow> winc_ctx_t" where
  "mesh_upd f c = c\<lparr>mesh := f (mesh c)\<rparr>"

definition mesh_send_beacon :: "winc_ctx_t \<Rightarrow> (bool \<times> winc_ctx_t) option" where
  "mesh_send_beacon c =
     (if \<not> enabled (mesh c) then Some (False, c)
      else if udp_socket (mesh c) < 0 then Some (False, c)
      else if \<not> nat (udp_socket (mesh c)) < MAX_SOCKETS then None
      else if state (sockets c ! nat (udp_socket (mesh c))) \<noteq> STATE_BOUND then Some (False, c)
      else put_sock_sendto (word_of_int (udp_socket (mesh c))) (beacon_bytes (mesh c))
             (int sizeof_beacon) (mesh_upd (\<lambda>m. m\<lparr>seq_num := seq_num m + 1\<rparr>) c))"

subsection \<open>Data packets\<close>

text \<open>A call of the data callback, if one is registered.\<close>

definition call_data_callback :: "u8 \<Rightarrow> u8 list \<Rightarrow> u16 \<Rightarrow> winc_ctx_t \<Rightarrow> winc_ctx_t" where
  "call_data_callback src data len c =
     (case data_callback (mesh c) of
        None \<Rightarrow> c
      | Some f \<Rightarrow> c\<lparr>callback_log := callback_log c @ [(f, src, data, len)]\<rparr>)"

text \<open>
  \<^verbatim>\<open>winc_mesh_send(dst_node, data, len)\<close>; \<open>malloc_ok\<close> tells whether the
  allocation of the packet buffer succeeds.
\<close>

definition winc_mesh_send ::
  "u8 \<Rightarrow> u8 list \<Rightarrow> u16 \<Rightarrow> bool \<Rightarrow> winc_ctx_t \<Rightarrow> (bool \<times> winc_ctx_t) option" where
  "winc_mesh_send dst data len malloc_ok c =
     (if \<not> enabled (mesh c) then Some (False, c)
      else if udp_socket (mesh c) < 0 then Some (False, c)
      else if mesh_find_route (mesh c) dst < 0 then Some (False, c)
      else if \<not> malloc_ok then Some (False, c)
      else
        (let pkt = hdr_bytes \<lparr>msg_type = MESH_MSG_DATA, src_node = my_node_id (mesh c),
                              dst_node = dst, hdr_hop_count = 0, hdr_seq_num = seq_num (mesh c),
                              payload_len = len\<rparr> @ take (unat len) data
         in put_sock_sendto (word_of_int (udp_socket (mesh c))) pkt (int sizeof_hdr + uint len)
              (mesh_upd (\<lambda>m. m\<lparr>seq_num := seq_num m + 1\<rparr>) c)))"



subsection \<open>Periodic processing\<close>

definition winc_mesh_process :: "u32 \<Rightarrow> winc_ctx_t \<Rightarrow> winc_ctx_t option" where
  "winc_mesh_process now c =
     (if \<not> enabled (mesh c) then Some c
      else
        (case (if WINC_MESH_BEACON_INTERVAL_MS < now - last_beacon (mesh c) then
                 map_option (\<lambda>(ok, c1). mesh_upd (\<lambda>m. m\<lparr>last_beacon := now\<rparr>) c1)
                   (mesh_send_beacon c)
               else Some c) of
           None \<Rightarrow> None
         | Some c2 \<Rightarrow>
             Some (mesh_upd (\<lambda>m. m\<lparr>routes :=
                      timeout_routes now (unat (route_count m)) 0 (routes m)\<rparr>) c2)))"

section \<open>Dispatch of chip responses (\<^verbatim>\<open>winc_lib.c\<close>)\<close>

subsection \<open>Handlers\<close>




subsection \<open>\<^verbatim>\<open>check_sock\<close>\<close>





subsection \<open>\<^verbatim>\<open>interrupt_handler\<close>\<close>

text \<open>
  What the chip delivers to one run of \<^verbatim>\<open>interrupt_handler\<close>: the value of \<^verbatim>\<open>ok\<close>
  after the register, header and response reads, the address \<^verbatim>\<open>addr\<close>, the group
  and operation of the header \<^verbatim>\<open>hh\<close>, and the contents of \<^verbatim>\<open>g_ctx.resp_msg\<close> after
  the reads (the message read, or what was there before when nothing was read).
  The register traffic itself is not part of the model.
\<close>

record irq_in =
  irq_ok :: bool
  irq_addr :: u32
  irq_gid :: u8
  irq_op :: u8
  irq_resp :: RESP_MSG

definition conn_upd ::
  "(connection_state_t \<Rightarrow> connection_state_t) \<Rightarrow> winc_ctx_t \<Rightarrow> winc_ctx_t" where
  "conn_upd f c = c\<lparr>connection_state := f (connection_state c)\<rparr>"

definition set_hif_data_addr :: "irq_in \<Rightarrow> winc_ctx_t \<Rightarrow> winc_ctx_t" where
  "set_hif_data_addr inp c =
     (if unat (recv_sock (resp_msg c)) < MAX_SOCKETS then
        sock_upd (unat (recv_sock (resp_msg c)))
          (\<lambda>sp. sp\<lparr>hif_data_addr := irq_addr inp + 8 + ucast (recv_oset (resp_msg c))\<rparr>) c
      else c)"

text \<open>
  The chain of cases under \<^verbatim>\<open>// Act on response\<close>: the connection state is
  tracked, and a receive response stores the address of its data in the socket.
\<close>

definition act_on_response :: "ap_codes \<Rightarrow> irq_in \<Rightarrow> winc_ctx_t \<Rightarrow> winc_ctx_t" where
  "act_on_response ap inp c0 =
     (let rmp = resp_msg c0;
          g = GIDOP (ucast (irq_gid inp)) (ucast (irq_op inp));
          ok = irq_ok inp
      in if g = GOP_STATE_CHANGE \<and> ok then
           (if val rmp = 1 then conn_upd (\<lambda>s. s\<lparr>connected := True\<rparr>) c0
            else if val rmp = 0
            then conn_upd (\<lambda>s. s\<lparr>connected := False, dhcp_done := False\<rparr>) c0
            else c0)
         else if g = GOP_DHCP_CONF \<and> ok then
           conn_upd (\<lambda>s. s\<lparr>dhcp_done := True, my_ip := dhcp_self rmp\<rparr>) c0
         else if g = GOP_AP_ENABLE ap \<and> ok then
           conn_upd (\<lambda>s. s\<lparr>connected := True, ap_mode := True, dhcp_done := True,
                            my_ip := 0xC0A80101\<rparr>) c0
         else if g = GOP_DHCP_CONF_AP ap \<and> ok then
           conn_upd (\<lambda>s. s\<lparr>connected := True, ap_mode := True, dhcp_done := True\<rparr>) c0
         else if g = GOP_AP_ASSOC_INFO ap then c0
         else if g = GOP_BIND \<and> ok then c0
         else if g = GOP_ACCEPT \<and> ok then c0
         else if g = GOP_RECVFROM \<and> ok then set_hif_data_addr inp c0
         else if g = GOP_RECV \<and> ok then set_hif_data_addr inp c0
         else c0)"


section \<open>Invariants\<close>

text \<open>
  The routing table has its eight slots, \<^verbatim>\<open>route_count\<close> is at most eight, and every
  active slot lies below \<^verbatim>\<open>route_count\<close>.
\<close>

definition routes_inv :: "mesh_t \<Rightarrow> bool" where
  "routes_inv m \<longleftrightarrow>
     length (routes m) = WINC_MESH_MAX_NODES \<and>
     unat (route_count m) \<le> WINC_MESH_MAX_NODES \<and>
     (\<forall>i<WINC_MESH_MAX_NODES. active (routes m ! i) \<longrightarrow> i < unat (route_count m))"

text \<open>
  Beacons give hop counts 1 and 2 only, so no active slot holds the hop count 255
  with which \<^verbatim>\<open>mesh_find_route\<close> starts its search for the minimum.
\<close>

definition hops_inv :: "mesh_t \<Rightarrow> bool" where
  "hops_inv m \<longleftrightarrow> (\<forall>i<WINC_MESH_MAX_NODES. active (routes m ! i) \<longrightarrow> hop_count (routes m ! i) < 255)"

text \<open>The socket pool has its ten slots and the mesh socket is one of them.\<close>

definition ctx_ok :: "winc_ctx_t \<Rightarrow> bool" where
  "ctx_ok c \<longleftrightarrow>
     length (sockets c) = MAX_SOCKETS \<and>
     0 \<le> udp_socket (mesh c) \<and> udp_socket (mesh c) < int MAX_SOCKETS"




section \<open>Example states\<close>

text \<open>
  The table of node 1 after it heard node 2, which advertised node 3 as its
  neighbour: a direct route to node 2 and a two-hop route to node 3 through node 2.
\<close>

definition empty_route :: route_entry where
  "empty_route = \<lparr>node_id = 0, next_hop = 0, hop_count = 0, last_seen = 0, active = False\<rparr>"

definition example_mesh :: mesh_t where
  "example_mesh =
     \<lparr>my_node_id = 1, my_name = [], enabled = True, udp_socket = 7,
      routes = [\<lparr>node_id = 2, next_hop = 2, hop_count = 1, last_seen = 4000, active = True\<rparr>,
                \<lparr>node_id = 3, next_hop = 2, hop_count = 2, last_seen = 4000, active = True\<rparr>,
                empty_route, empty_route, empty_route, empty_route, empty_route, empty_route],
      route_count = 2, seq_num = 0, last_beacon = 0, data_callback = Some 0\<rparr>"


text \<open>
  A context of node 1 with the mesh socket open on slot 7 and bound (its stored
  address is the one that the bind left), a second socket on slot 8, the network up,
  no call of \<^verbatim>\<open>hif_put\<close> so far and a bus on which every transfer succeeds. A read
  of 13 bytes at the data address of slot 7 gives a data packet from node 4 to node 3
  with hop count 1 and the payload \<open>hello\<close>.
\<close>

definition example_packet :: "u8 \<Rightarrow> u8 list" where
  "example_packet h = [2, 4, 3, h, 7, 0, 5, 0] @ [104, 101, 108, 108, 111] @ replicate 1587 0"

definition example_socket :: SOCKET where
  "example_socket = \<lparr>addr = \<lparr>family = 2, port = 0x0104, ip = 0\<rparr>, localport = 1025, session = 1,
                      state = 2, conn_sock = 0, hif_data_addr = 0x1000,
                      handler = Some H_mesh_packet\<rparr>"

text \<open>A socket opened on port 2000 that has not been bound yet.\<close>

definition pending_socket :: SOCKET where
  "pending_socket = \<lparr>addr = \<lparr>family = 0, port = 0, ip = 0\<rparr>, localport = 2000, session = 2,
                      state = 1, conn_sock = 0, hif_data_addr = 0,
                      handler = Some H_udp_echo\<rparr>"

definition example_resp :: RESP_MSG where
  "example_resp = \<lparr>val = 0, dhcp_self = 0, bind_sock = 0, accept_listen_sock = 0,
                    accept_conn_sock = 0, recv_addr = \<lparr>family = 2, port = 0x0104, ip = 0x0201A8C0\<rparr>,
                    recv_dlen = 13, recv_oset = 16, recv_sock = 7\<rparr>"

definition example_ctx :: winc_ctx_t where
  "example_ctx =
     \<lparr>sockets = replicate 7 zero_socket @ [example_socket, pending_socket, zero_socket],
      resp_msg = example_resp,
      mesh = example_mesh,
      connection_state = \<lparr>connected = True, dhcp_done = True, ap_mode = True, my_ip = 0xC0A80101\<rparr>,
      session_static = 3,
      hif_log = [],
      hif_ok = (\<lambda>n. True),
      rx_data = (\<lambda>a n. if a = 0x1000 \<and> n = 13 then Some (example_packet 1) else None),
      callback_log = []\<rparr>"


text \<open>The example with all three connectionless slots taken.\<close>

definition example_full :: winc_ctx_t where
  "example_full =
     example_ctx\<lparr>sockets := replicate 7 zero_socket @ [example_socket, pending_socket, pending_socket]\<rparr>"






section \<open>The scan of the route update\<close>

lemma all_slots:
  "(\<forall>i<WINC_MESH_MAX_NODES. P i) \<longleftrightarrow> P 0 \<and> P 1 \<and> P 2 \<and> P 3 \<and> P 4 \<and> P 5 \<and> P 6 \<and> P 7"
proof -
  have "i < WINC_MESH_MAX_NODES \<longleftrightarrow> i = 0 \<or> i = 1 \<or> i = 2 \<or> i = 3 \<or> i = 4 \<or> i = 5 \<or> i = 6 \<or> i = 7"
    for i unfolding WINC_MESH_MAX_NODES_def by arith
  then show ?thesis by auto
qed

lemma update_scan_stop: "\<not> i < WINC_MESH_MAX_NODES \<Longrightarrow> update_scan rs nid i f = (-1, f)"
  by (simp add: update_scan.simps [of rs nid i f])

lemma update_scan_hit:
  "i < WINC_MESH_MAX_NODES \<Longrightarrow> active (rs ! i) \<and> node_id (rs ! i) = nid \<Longrightarrow>
   update_scan rs nid i f = (int i, f)"
  by (simp add: update_scan.simps [of rs nid i f])

lemma update_scan_step:
  "i < WINC_MESH_MAX_NODES \<Longrightarrow> \<not> (active (rs ! i) \<and> node_id (rs ! i) = nid) \<Longrightarrow>
   update_scan rs nid i f =
     update_scan rs nid (Suc i) (if \<not> active (rs ! i) \<and> f < 0 then int i else f)"
  by (subst update_scan.simps) auto

lemma update_scan_bounds:
  assumes "-1 \<le> f" "f < int WINC_MESH_MAX_NODES"
  shows "-1 \<le> fst (update_scan rs nid i f) \<and> fst (update_scan rs nid i f) < int WINC_MESH_MAX_NODES \<and>
         -1 \<le> snd (update_scan rs nid i f) \<and> snd (update_scan rs nid i f) < int WINC_MESH_MAX_NODES"
  using assms
proof (induction rs nid i f rule: update_scan.induct)
  case (1 rs nid i free_slot)
  consider (stop) "\<not> i < WINC_MESH_MAX_NODES"
    | (hit) "i < WINC_MESH_MAX_NODES" "active (rs ! i) \<and> node_id (rs ! i) = nid"
    | (step) "i < WINC_MESH_MAX_NODES" "\<not> (active (rs ! i) \<and> node_id (rs ! i) = nid)"
    by blast
  then show ?case
  proof cases
    case stop
    with "1.prems" show ?thesis by (simp add: update_scan_stop)
  next
    case hit
    with "1.prems" show ?thesis by (simp add: update_scan_hit)
  next
    case step
    have "- 1 \<le> (if \<not> active (rs ! i) \<and> free_slot < 0 then int i else free_slot)"
      and "(if \<not> active (rs ! i) \<and> free_slot < 0 then int i else free_slot) < int WINC_MESH_MAX_NODES"
      using "1.prems" step(1) by auto
    from "1.IH" [OF step this] show ?thesis
      by (simp only: update_scan_step [OF step])
  qed
qed






lemma hops_inv_update:
  assumes "hops_inv m" "length (routes m) = WINC_MESH_MAX_NODES" "hc < 255"
  shows "hops_inv (mesh_update_route nid nh hc now m)"
proof -
  obtain e f where sc: "update_scan (routes m) nid 0 (-1) = (e, f)"
    by (cases "update_scan (routes m) nid 0 (-1)")
  from update_scan_bounds [of "-1" "routes m" nid 0] sc
  have b: "-1 \<le> e" "e < int WINC_MESH_MAX_NODES" "-1 \<le> f" "f < int WINC_MESH_MAX_NODES"
    by simp_all
  show ?thesis
    using assms sc b
    by (auto simp: mesh_update_route_def hops_inv_def nth_list_update)
qed

lemma length_routes_update [simp]:
  "length (routes (mesh_update_route nid nh hc now m)) = length (routes m)"
  by (auto simp: mesh_update_route_def split: prod.splits)

subsection \<open>An update for a destination with an active slot\<close>

lemma update_scan_first:
  assumes "k < WINC_MESH_MAX_NODES" "i \<le> k"
    and "active (rs ! k)" "node_id (rs ! k) = nid"
    and "\<forall>j. i \<le> j \<and> j < k \<longrightarrow> \<not> (active (rs ! j) \<and> node_id (rs ! j) = nid)"
  shows "fst (update_scan rs nid i f) = int k"
  using assms
proof (induction rs nid i f rule: update_scan.induct)
  case (1 rs nid i free_slot)
  show ?case
  proof (cases "i = k")
    case True
    with "1.prems" show ?thesis by (simp add: update_scan.simps)
  next
    case False
    with "1.prems" have lt: "i < k" and nomatch: "\<not> (active (rs ! i) \<and> node_id (rs ! i) = nid)"
      by auto
    from lt "1.prems" have iN: "i < WINC_MESH_MAX_NODES" by simp
    have "fst (update_scan rs nid (Suc i)
                (if \<not> active (rs ! i) \<and> free_slot < 0 then int i else free_slot)) = int k"
      using "1.IH" [OF iN nomatch] "1.prems" lt by auto
    with iN nomatch show ?thesis
      by (subst update_scan.simps) auto
  qed
qed


lemma update_existing_entry:
  assumes "k < WINC_MESH_MAX_NODES" "active (routes m ! k)" "node_id (routes m ! k) = nid"
    and "\<forall>j<k. \<not> (active (routes m ! j) \<and> node_id (routes m ! j) = nid)"
  shows "mesh_update_route nid nh hc now m =
     (if hc \<le> hop_count (routes m ! k)
      then m\<lparr>routes := (routes m)[k :=
             (routes m ! k)\<lparr>next_hop := nh, hop_count := hc, last_seen := now\<rparr>]\<rparr>
      else m)"
proof -
  have "fst (update_scan (routes m) nid 0 (-1)) = int k"
    using assms by (intro update_scan_first) auto
  then obtain f where "update_scan (routes m) nid 0 (-1) = (int k, f)"
    by (cases "update_scan (routes m) nid 0 (-1)") auto
  then show ?thesis
    by (simp add: mesh_update_route_def)
qed

section \<open>The loops over the routing table\<close>

subsection \<open>Route lookup\<close>

lemma find_best_stop: "\<not> i < n \<Longrightarrow> find_best rs dst n i best mh = best"
  by (simp add: find_best.simps [of rs dst n i best mh])

lemma find_best_take:
  "i < n \<Longrightarrow> active (rs ! i) \<and> node_id (rs ! i) = dst \<and> hop_count (rs ! i) < mh \<Longrightarrow>
   find_best rs dst n i best mh = find_best rs dst n (Suc i) (int i) (hop_count (rs ! i))"
  by (subst find_best.simps) auto

lemma find_best_skip:
  "i < n \<Longrightarrow> \<not> (active (rs ! i) \<and> node_id (rs ! i) = dst \<and> hop_count (rs ! i) < mh) \<Longrightarrow>
   find_best rs dst n i best mh = find_best rs dst n (Suc i) best mh"
  by (subst find_best.simps) auto

text \<open>The slot that the search returns is the one it started with or an active slot
  for the destination in the range searched.\<close>

lemma find_best_result:
  "find_best rs dst n i best mh = best \<or>
   (int i \<le> find_best rs dst n i best mh \<and> find_best rs dst n i best mh < int n \<and>
    active (rs ! nat (find_best rs dst n i best mh)) \<and>
    node_id (rs ! nat (find_best rs dst n i best mh)) = dst)"
proof (induction rs dst n i best mh rule: find_best.induct)
  case (1 rs dst n i best min_hops)
  consider (stop) "\<not> i < n"
    | (take) "i < n" "active (rs ! i) \<and> node_id (rs ! i) = dst \<and> hop_count (rs ! i) < min_hops"
    | (skip) "i < n" "\<not> (active (rs ! i) \<and> node_id (rs ! i) = dst \<and> hop_count (rs ! i) < min_hops)"
    by blast
  then show ?case
  proof cases
    case stop
    then show ?thesis by (simp add: find_best_stop)
  next
    case take
    from "1.IH"(1) [OF take] take show ?thesis
      by (auto simp: find_best_take [OF take])
  next
    case skip
    from "1.IH"(2) [OF skip] show ?thesis
      by (auto simp: find_best_skip [OF skip])
  qed
qed

lemma find_best_none:
  assumes "\<forall>j. i \<le> j \<and> j < n \<longrightarrow> \<not> (active (rs ! j) \<and> node_id (rs ! j) = dst)"
  shows "find_best rs dst n i best mh = best"
  using assms
proof (induction rs dst n i best mh rule: find_best.induct)
  case (1 rs dst n i best min_hops)
  show ?case
  proof (cases "i < n")
    case False
    then show ?thesis by (simp add: find_best_stop)
  next
    case True
    with "1.prems" have skip: "\<not> (active (rs ! i) \<and> node_id (rs ! i) = dst \<and> hop_count (rs ! i) < min_hops)"
      by auto
    from "1.IH"(2) [OF True skip] "1.prems" show ?thesis
      by (simp add: find_best_skip [OF True skip])
  qed
qed



subsection \<open>The expiry sweep\<close>

lemma timeout_routes_stop: "\<not> i < n \<Longrightarrow> timeout_routes now n i rs = rs"
  by (simp add: timeout_routes.simps [of now n i rs])

lemma timeout_routes_step:
  "i < n \<Longrightarrow> timeout_routes now n i rs =
     timeout_routes now n (Suc i)
       (if active (rs ! i) \<and> WINC_MESH_ROUTE_TIMEOUT_MS < now - last_seen (rs ! i)
        then rs[i := (rs ! i)\<lparr>active := False\<rparr>] else rs)"
  by (subst timeout_routes.simps) simp

lemma length_timeout_routes [simp]: "length (timeout_routes now n i rs) = length rs"
proof (induction now n i rs rule: timeout_routes.induct)
  case (1 now n i rs)
  show ?case
  proof (cases "i < n")
    case True
    with "1.IH" show ?thesis by (simp add: timeout_routes_step)
  next
    case False
    then show ?thesis by (simp add: timeout_routes_stop)
  qed
qed

text \<open>A slot after the sweep: the same entry, inactive if it was swept and stale.\<close>

lemma timeout_routes_nth:
  assumes "n \<le> length rs" "j < length rs"
  shows "timeout_routes now n i rs ! j =
           (if i \<le> j \<and> j < n \<and> active (rs ! j) \<and>
               WINC_MESH_ROUTE_TIMEOUT_MS < now - last_seen (rs ! j)
            then (rs ! j)\<lparr>active := False\<rparr> else rs ! j)"
  using assms
proof (induction now n i rs rule: timeout_routes.induct)
  case (1 now n i rs)
  show ?case
  proof (cases "i < n")
    case False
    then show ?thesis by (simp add: timeout_routes_stop)
  next
    case True
    let ?rs = "if active (rs ! i) \<and> WINC_MESH_ROUTE_TIMEOUT_MS < now - last_seen (rs ! i)
               then rs[i := (rs ! i)\<lparr>active := False\<rparr>] else rs"
    have len: "n \<le> length ?rs" "j < length ?rs" using "1.prems" by auto
    have IH: "timeout_routes now n (Suc i) ?rs ! j =
           (if Suc i \<le> j \<and> j < n \<and> active (?rs ! j) \<and>
               WINC_MESH_ROUTE_TIMEOUT_MS < now - last_seen (?rs ! j)
            then (?rs ! j)\<lparr>active := False\<rparr> else ?rs ! j)"
      by (rule "1.IH" [OF True len])
    show ?thesis
    proof (cases "j = i")
      case True
      with IH \<open>i < n\<close> "1.prems" show ?thesis
        by (simp add: timeout_routes_step [OF \<open>i < n\<close>])
    next
      case False
      then have "?rs ! j = rs ! j" by simp
      with IH False \<open>i < n\<close> show ?thesis
        by (auto simp: timeout_routes_step [OF \<open>i < n\<close>])
    qed
  qed
qed

subsection \<open>Counting\<close>




section \<open>Sending and forwarding\<close>

lemma put_sock_sendto_in_range:
  "unat s < MAX_SOCKETS \<Longrightarrow>
   put_sock_sendto s data len c =
     Some (hif_ok c (length (hif_log c)),
           c\<lparr>hif_log := hif_log c @
               [\<lparr>gop = GOP_SENDTO OR REQ_DATA,
                 dp1 = Sendto (sendto_cmd (sockets c ! unat s) s len), dlen1 = 16,
                 dp2 = Some data, dlen2 = len, oset = UDP_DATA_OSET\<rparr>]\<rparr>)"
  by (simp add: put_sock_sendto_def hif_put_def)

lemma unat_udp_socket:
  assumes "ctx_ok c"
  shows "unat (word_of_int (udp_socket (mesh c)) :: u8) = nat (udp_socket (mesh c))"
    and "nat (udp_socket (mesh c)) < MAX_SOCKETS"
proof -
  from assms have r: "0 \<le> udp_socket (mesh c)" "udp_socket (mesh c) < 10"
    by (simp_all add: ctx_ok_def MAX_SOCKETS_def)
  then have "udp_socket (mesh c) = 0 \<or> udp_socket (mesh c) = 1 \<or> udp_socket (mesh c) = 2 \<or>
      udp_socket (mesh c) = 3 \<or> udp_socket (mesh c) = 4 \<or> udp_socket (mesh c) = 5 \<or>
      udp_socket (mesh c) = 6 \<or> udp_socket (mesh c) = 7 \<or> udp_socket (mesh c) = 8 \<or>
      udp_socket (mesh c) = 9" by arith
  then show "unat (word_of_int (udp_socket (mesh c)) :: u8) = nat (udp_socket (mesh c))"
    by auto
  from r show "nat (udp_socket (mesh c)) < MAX_SOCKETS" by (simp add: MAX_SOCKETS_def)
qed

lemma mesh_find_route_none:
  assumes "unat (route_count m) \<le> WINC_MESH_MAX_NODES"
    and "\<forall>i<WINC_MESH_MAX_NODES. \<not> (active (routes m ! i) \<and> node_id (routes m ! i) = dst)"
  shows "mesh_find_route m dst = -1"
proof -
  have "find_best (routes m) dst (unat (route_count m)) 0 (-1) 255 = -1"
    using assms by (intro find_best_none) auto
  then show ?thesis by (simp add: mesh_find_route_def)
qed








lemma u16_bytes_swap16: "u16_bytes (swap16 p) = rev (u16_bytes p)"
proof -
  have a: "(ucast (swap16 p) :: u8) = ucast (drop_bit 8 p)"
    by (rule bit_word_eqI) (auto simp: swap16_def bit_simps)
  have m: "(0xff :: u16) = mask 8"
    by (simp add: mask_eq_exp_minus_1)
  have b: "(ucast (drop_bit 8 (swap16 p)) :: u8) = ucast p"
    by (rule bit_word_eqI) (auto simp: swap16_def m bit_simps)
  show ?thesis by (simp add: u16_bytes_def a b)
qed

section \<open>Periodic processing\<close>

lemma mesh_send_beacon_total:
  assumes "ctx_ok c"
  shows "\<exists>ok c'. mesh_send_beacon c = Some (ok, c') \<and> routes (mesh c') = routes (mesh c) \<and>
           route_count (mesh c') = route_count (mesh c) \<and> enabled (mesh c') = enabled (mesh c) \<and>
           udp_socket (mesh c') = udp_socket (mesh c) \<and> sockets c' = sockets c"
  using unat_udp_socket [OF assms]
  by (auto simp: mesh_send_beacon_def put_sock_sendto_in_range mesh_upd_def)

lemma winc_mesh_process_result:
  assumes "enabled (mesh c)" "ctx_ok c"
  shows "\<exists>c'. winc_mesh_process now c = Some c' \<and>
           routes (mesh c') = timeout_routes now (unat (route_count (mesh c))) 0 (routes (mesh c)) \<and>
           route_count (mesh c') = route_count (mesh c) \<and>
           udp_socket (mesh c') = udp_socket (mesh c) \<and> sockets c' = sockets c"
proof (cases "WINC_MESH_BEACON_INTERVAL_MS < now - last_beacon (mesh c)")
  case True
  from mesh_send_beacon_total [OF assms(2)] obtain ok c1 where
    "mesh_send_beacon c = Some (ok, c1)" "routes (mesh c1) = routes (mesh c)"
    "route_count (mesh c1) = route_count (mesh c)" "udp_socket (mesh c1) = udp_socket (mesh c)"
    "sockets c1 = sockets c"
    by blast
  with True assms(1) show ?thesis
    by (simp add: winc_mesh_process_def mesh_upd_def)
next
  case False
  with assms(1) show ?thesis
    by (simp add: winc_mesh_process_def mesh_upd_def)
qed


lemma find_best_slot:
  assumes "0 \<le> find_best rs dst n 0 (-1) mh"
  shows "nat (find_best rs dst n 0 (-1) mh) < n \<and>
         active (rs ! nat (find_best rs dst n 0 (-1) mh)) \<and>
         node_id (rs ! nat (find_best rs dst n 0 (-1) mh)) = dst"
  using find_best_result [of rs dst n 0 "-1" mh] assms by auto

subsection \<open>The example states satisfy the invariants\<close>

lemma example_routes_inv: "routes_inv example_mesh"
  unfolding routes_inv_def all_slots
  by (simp add: example_mesh_def empty_route_def WINC_MESH_MAX_NODES_def)


lemma example_ctx_ok: "ctx_ok example_ctx"
  by (simp add: ctx_ok_def example_ctx_def example_mesh_def MAX_SOCKETS_def)

lemma example_ctx_mesh [simp]: "mesh example_ctx = example_mesh"
  by (simp add: example_ctx_def)

lemma example_socket_7 [simp]: "sockets example_ctx ! 7 = example_socket"
  by (simp add: example_ctx_def nth_append)

lemma example_socket_8 [simp]: "sockets example_ctx ! 8 = pending_socket"
  by (simp add: example_ctx_def nth_append)

lemma example_socket_9 [simp]: "sockets example_ctx ! 9 = zero_socket"
  by (simp add: example_ctx_def nth_append)

lemma example_packet_hdr [simp]:
  "hdr_of (example_packet h) =
     \<lparr>msg_type = 2, src_node = 4, dst_node = 3, hdr_hop_count = h, hdr_seq_num = 7, payload_len = 5\<rparr>"
  by (simp add: hdr_of_def example_packet_def u16_of_def)

lemma example_packet_hop [simp]: "(example_packet h)[3 := h'] = example_packet h'"
  by (simp add: example_packet_def numeral_3_eq_3)



section \<open>Preservation of the routing-table invariant\<close>

lemma routes_inv_cong:
  "routes m' = routes m \<Longrightarrow> route_count m' = route_count m \<Longrightarrow> routes_inv m' = routes_inv m"
  by (simp add: routes_inv_def)






lemma mesh_call_data_callback [simp]: "mesh (call_data_callback src data len c) = mesh c"
  by (simp add: call_data_callback_def split: option.splits)






subsection \<open>The hop counts of the table\<close>

lemma hops_inv_neighbors_loop:
  "hops_inv m \<Longrightarrow> length (routes m) = WINC_MESH_MAX_NODES \<Longrightarrow>
   hops_inv (beacon_neighbors_loop now buf i m)"
proof (induction now buf i m rule: beacon_neighbors_loop.induct)
  case (1 now buf i m)
  show ?case
  proof (cases "i < unat (beacon_neighbor_count buf)")
    case False
    with "1.prems" show ?thesis
      by (simp add: beacon_neighbors_loop.simps [of now buf i m])
  next
    case True
    show ?thesis
    proof (cases "beacon_neighbor buf i = my_node_id m")
      case self: True
      from "1.IH"(1) [OF True self "1.prems"] True self show ?thesis
        by (simp add: beacon_neighbors_loop.simps [of now buf i m])
    next
      case other: False
      have "hops_inv (mesh_update_route (beacon_neighbor buf i) (beacon_node_id buf) 2 now m)"
        using "1.prems" by (intro hops_inv_update) simp_all
      from "1.IH"(2) [OF True other this] "1.prems"(2) True other show ?thesis
        by (simp add: beacon_neighbors_loop.simps [of now buf i m])
    qed
  qed
qed

lemma hops_inv_handle_beacon:
  assumes "hops_inv m" "length (routes m) = WINC_MESH_MAX_NODES"
  shows "hops_inv (mesh_handle_beacon now buf m)"
proof -
  have "hops_inv (mesh_update_route (beacon_node_id buf) (beacon_node_id buf) 1 now m)"
    using assms by (intro hops_inv_update) simp_all
  with assms(2) show ?thesis
    by (simp add: mesh_handle_beacon_def hops_inv_neighbors_loop)
qed

lemma hops_inv_timeout:
  assumes "hops_inv m" "routes_inv m"
  shows "hops_inv (m\<lparr>routes := timeout_routes now (unat (route_count m)) 0 (routes m)\<rparr>)"
proof -
  from assms(2) have len: "length (routes m) = WINC_MESH_MAX_NODES"
    and rc: "unat (route_count m) \<le> length (routes m)"
    by (auto simp: routes_inv_def)
  have "hop_count (timeout_routes now (unat (route_count m)) 0 (routes m) ! i) < 255"
    if "i < WINC_MESH_MAX_NODES" "active (timeout_routes now (unat (route_count m)) 0 (routes m) ! i)"
    for i
    using timeout_routes_nth [OF rc, of i now 0] that len assms(1)
    by (auto simp: hops_inv_def split: if_splits)
  then show ?thesis by (simp add: hops_inv_def)
qed

lemma hops_inv_reset: "hops_inv (mesh_table_reset m)"
  by (simp add: hops_inv_def mesh_table_reset_def)

subsection \<open>The operations return\<close>



section \<open>Opening a socket\<close>

lemma unat_slot: "s < MAX_SOCKETS \<Longrightarrow> unat (word_of_nat s :: u8) = s"
  by (simp add: unat_of_nat MAX_SOCKETS_def)

text \<open>The context after \<^verbatim>\<open>open_sock_server\<close> has taken slot \<open>s\<close>.\<close>

lemma open_sock_loop_stop:
  "\<not> s < smax \<Longrightarrow> open_sock_loop portnum h smax s c = Some (-1, c)"
  by (simp add: open_sock_loop.simps [of portnum h smax s c])

lemma open_sock_loop_skip:
  "s < smax \<Longrightarrow> state (sockets c ! s) \<noteq> 0 \<Longrightarrow>
   open_sock_loop portnum h smax s c = open_sock_loop portnum h smax (Suc s) c"
  by (subst open_sock_loop.simps) simp

lemma open_sock_loop_take:
  assumes "s < smax" "smax \<le> MAX_SOCKETS" "length (sockets c) = MAX_SOCKETS"
    and "state (sockets c ! s) = 0"
  shows "\<exists>c'. open_sock_loop portnum h smax s c = Some (int s, c') \<and>
           length (sockets c') = MAX_SOCKETS \<and>
           state (sockets c' ! s) = STATE_BINDING \<and>
           handler (sockets c' ! s) = h \<and>
           localport (sockets c' ! s) = word_of_int portnum \<and>
           session (sockets c' ! s) = session_static c \<and>
           session_static c' = session_static c + 1 \<and>
           (\<forall>j<MAX_SOCKETS. j \<noteq> s \<longrightarrow> sockets c' ! j = sockets c ! j)"
proof -
  from assms have sM: "s < MAX_SOCKETS" by simp
  note u = unat_slot [OF sM]
  show ?thesis
    using assms sM u
    by (subst open_sock_loop.simps)
       (auto simp: Let_def sock_upd_def sock_state_def put_sock_bind_def hif_put_def)
qed

lemma open_sock_loop_spec:
  assumes "smax \<le> MAX_SOCKETS" "length (sockets c) = MAX_SOCKETS"
  shows "\<exists>r c'. open_sock_loop portnum h smax s c = Some (r, c') \<and>
           ((r = -1 \<and> c' = c \<and> (\<forall>j. s \<le> j \<and> j < smax \<longrightarrow> state (sockets c ! j) \<noteq> 0)) \<or>
            (int s \<le> r \<and> r < int smax \<and> state (sockets c ! nat r) = 0 \<and>
             (\<forall>j. s \<le> j \<and> j < nat r \<longrightarrow> state (sockets c ! j) \<noteq> 0) \<and>
             length (sockets c') = MAX_SOCKETS \<and>
             state (sockets c' ! nat r) = STATE_BINDING \<and>
             handler (sockets c' ! nat r) = h \<and>
             (\<forall>j<MAX_SOCKETS. j \<noteq> nat r \<longrightarrow> sockets c' ! j = sockets c ! j)))"
  using assms
proof (induction portnum h smax s c rule: open_sock_loop.induct)
  case (1 portnum h smax s c)
  consider (stop) "\<not> s < smax" | (take) "s < smax" "state (sockets c ! s) = 0"
    | (skip) "s < smax" "state (sockets c ! s) \<noteq> 0"
    by blast
  then show ?case
  proof cases
    case stop
    then show ?thesis by (simp add: open_sock_loop_stop)
  next
    case take
    from open_sock_loop_take [OF take(1) "1.prems" take(2), of portnum h] take
    show ?thesis by auto
  next
    case skip
    from "1.IH" [OF skip "1.prems"] obtain r c' where
      r: "open_sock_loop portnum h smax (Suc s) c = Some (r, c')"
      and d: "(r = -1 \<and> c' = c \<and> (\<forall>j. Suc s \<le> j \<and> j < smax \<longrightarrow> state (sockets c ! j) \<noteq> 0)) \<or>
            (int (Suc s) \<le> r \<and> r < int smax \<and> state (sockets c ! nat r) = 0 \<and>
             (\<forall>j. Suc s \<le> j \<and> j < nat r \<longrightarrow> state (sockets c ! j) \<noteq> 0) \<and>
             length (sockets c') = MAX_SOCKETS \<and>
             state (sockets c' ! nat r) = STATE_BINDING \<and>
             handler (sockets c' ! nat r) = h \<and>
             (\<forall>j<MAX_SOCKETS. j \<noteq> nat r \<longrightarrow> sockets c' ! j = sockets c ! j))"
      by blast
    have ext: "(\<forall>j. Suc s \<le> j \<and> j < n \<longrightarrow> state (sockets c ! j) \<noteq> 0) \<Longrightarrow>
               (\<forall>j. s \<le> j \<and> j < n \<longrightarrow> state (sockets c ! j) \<noteq> 0)" for n
      using skip(2) by (metis Suc_leI le_neq_implies_less)
    from d show ?thesis
    proof
      assume "r = -1 \<and> c' = c \<and> (\<forall>j. Suc s \<le> j \<and> j < smax \<longrightarrow> state (sockets c ! j) \<noteq> 0)"
      with r ext [of smax] show ?thesis
        by (simp add: open_sock_loop_skip [OF skip])
    next
      assume t: "int (Suc s) \<le> r \<and> r < int smax \<and> state (sockets c ! nat r) = 0 \<and>
             (\<forall>j. Suc s \<le> j \<and> j < nat r \<longrightarrow> state (sockets c ! j) \<noteq> 0) \<and>
             length (sockets c') = MAX_SOCKETS \<and>
             state (sockets c' ! nat r) = STATE_BINDING \<and>
             handler (sockets c' ! nat r) = h \<and>
             (\<forall>j<MAX_SOCKETS. j \<noteq> nat r \<longrightarrow> sockets c' ! j = sockets c ! j)"
      then have "int s \<le> r" by simp
      with t r ext [of "nat r"] show ?thesis
        by (simp add: open_sock_loop_skip [OF skip])
    qed
  qed
qed

lemma example_len: "length (sockets example_ctx) = MAX_SOCKETS"
  by (simp add: example_ctx_def MAX_SOCKETS_def)

lemma full_len: "length (sockets example_full) = MAX_SOCKETS"
  by (simp add: example_full_def MAX_SOCKETS_def)

lemma udp_slots: "7 \<le> j \<and> j < (10::nat) \<longleftrightarrow> j = 7 \<or> j = 8 \<or> j = 9"
  by arith

section \<open>Dispatch of responses\<close>


lemma ctx_ok_sock_upd [simp]: "ctx_ok (sock_upd s f c) = ctx_ok c"
  by (simp add: ctx_ok_def sock_upd_def)

lemma ctx_ok_sock_state [simp]: "ctx_ok (sock_state s news c) = ctx_ok c"
  by (simp add: sock_state_def)

lemma ctx_ok_hif_put [simp]: "ctx_ok (snd (hif_put msg c)) = ctx_ok c"
  by (simp add: ctx_ok_def hif_put_def)

lemma ctx_ok_conn_upd [simp]: "ctx_ok (conn_upd f c) = ctx_ok c"
  by (simp add: ctx_ok_def conn_upd_def)

lemma ctx_ok_resp [simp]: "ctx_ok (c\<lparr>resp_msg := r\<rparr>) = ctx_ok c"
  by (simp add: ctx_ok_def)

lemma ctx_ok_callback [simp]: "ctx_ok (call_data_callback src data len c) = ctx_ok c"
  by (simp add: ctx_ok_def call_data_callback_def split: option.splits)














lemma ctx_ok_set_hif_data_addr [simp]: "ctx_ok (set_hif_data_addr inp c) = ctx_ok c"
  by (simp add: set_hif_data_addr_def)

lemma ctx_ok_act_on_response [simp]: "ctx_ok (act_on_response ap inp c) = ctx_ok c"
  by (simp add: act_on_response_def Let_def)




lemma udp_socket_update_route [simp]:
  "udp_socket (mesh_update_route nid nh hc now m) = udp_socket m"
  by (auto simp: mesh_update_route_def split: prod.splits)

lemma my_node_id_update_route [simp]:
  "my_node_id (mesh_update_route nid nh hc now m) = my_node_id m"
  by (auto simp: mesh_update_route_def split: prod.splits)

lemma udp_socket_neighbors_loop [simp]:
  "udp_socket (beacon_neighbors_loop now buf i m) = udp_socket m"
proof (induction now buf i m rule: beacon_neighbors_loop.induct)
  case (1 now buf i m)
  then show ?case
    by (simp add: beacon_neighbors_loop.simps [of now buf i m])
qed

lemma udp_socket_handle_beacon [simp]:
  "udp_socket (mesh_handle_beacon now buf m) = udp_socket m"
  by (simp add: mesh_handle_beacon_def)











subsection \<open>The example contexts\<close>



section \<open>Claims about the route update\<close>

text \<open>
  C1. A route update for a destination that has an active entry (the scan takes
  the first active slot for the destination) overwrites that entry's next hop and
  hop count and refreshes its timestamp if the advertised hop count is at most the
  stored one, and leaves the whole mesh state unchanged if it is greater. Nothing
  else of the state changes in the first case.
\<close>

theorem mesh_update_route_existing:
  assumes "length (routes m) = WINC_MESH_MAX_NODES"
    and "k < WINC_MESH_MAX_NODES" "active (routes m ! k)" "node_id (routes m ! k) = nid"
    and "\<forall>j<k. \<not> (active (routes m ! j) \<and> node_id (routes m ! j) = nid)"
  shows "(hc \<le> hop_count (routes m ! k) \<longrightarrow>
            mesh_update_route nid nh hc now m =
              m\<lparr>routes := (routes m)[k :=
                  (routes m ! k)\<lparr>next_hop := nh, hop_count := hc, last_seen := now\<rparr>]\<rparr>) \<and>
         (hop_count (routes m ! k) < hc \<longrightarrow> mesh_update_route nid nh hc now m = m)"
  using update_existing_entry [OF assms(2-5)] by auto

text \<open>
  The theorem at the example of the specification: node 2 has a one-hop route, and
  an update with hop count 3 (through node 5) does not replace it; an update with
  hop count 1 refreshes it.
\<close>

theorem mesh_update_route_existing_witness:
  "length (routes example_mesh) = WINC_MESH_MAX_NODES \<and>
   active (routes example_mesh ! 0) \<and> node_id (routes example_mesh ! 0) = 2 \<and>
   hop_count (routes example_mesh ! 0) = 1 \<and>
   mesh_update_route 2 5 3 9000 example_mesh = example_mesh \<and>
   routes (mesh_update_route 2 2 1 9000 example_mesh) ! 0 =
     \<lparr>node_id = 2, next_hop = 2, hop_count = 1, last_seen = 9000, active = True\<rparr>"
  using mesh_update_route_existing [of example_mesh 0 2 3 5 9000]
        mesh_update_route_existing [of example_mesh 0 2 1 2 9000]
  by (simp add: example_mesh_def WINC_MESH_MAX_NODES_def)

text \<open>
  C3 as stated fails: an update with the stored hop count, arriving through another
  neighbour, replaces the next hop. Node 3 is reached in two hops through node 2; a
  beacon of node 4 that lists node 3 gives \<^verbatim>\<open>mesh_update_route(3, 4, 2)\<close>.
\<close>

theorem equal_hop_next_hop_counterexample:
  "active (routes example_mesh ! 1) \<and> node_id (routes example_mesh ! 1) = 3 \<and>
   hop_count (routes example_mesh ! 1) = 2 \<and> next_hop (routes example_mesh ! 1) = 2 \<and>
   last_seen (routes (mesh_update_route 3 4 2 9000 example_mesh) ! 1) = 9000 \<and>
   next_hop (routes (mesh_update_route 3 4 2 9000 example_mesh) ! 1) = 4"
  by (intro conjI; simp add: example_mesh_def mesh_update_route_def update_scan.simps
        WINC_MESH_MAX_NODES_def)

text \<open>
  C3, amended. An update whose hop count equals the stored one refreshes the
  timestamp, keeps destination, hop count and active flag, and sets the next hop to
  the advertising neighbour; the next hop is therefore unchanged exactly when the
  update comes through the stored next hop.
\<close>

theorem mesh_update_route_equal_hops:
  assumes "length (routes m) = WINC_MESH_MAX_NODES"
    and "k < WINC_MESH_MAX_NODES" "active (routes m ! k)" "node_id (routes m ! k) = nid"
    and "\<forall>j<k. \<not> (active (routes m ! j) \<and> node_id (routes m ! j) = nid)"
    and "hc = hop_count (routes m ! k)"
  shows "routes (mesh_update_route nid nh hc now m) ! k =
           (routes m ! k)\<lparr>next_hop := nh, last_seen := now\<rparr> \<and>
         (next_hop (routes (mesh_update_route nid nh hc now m) ! k) = next_hop (routes m ! k)
            \<longleftrightarrow> nh = next_hop (routes m ! k))"
  using update_existing_entry [OF assms(2-5), of nh hc now] assms(1,2,6) by simp

theorem mesh_update_route_equal_hops_witness:
  "length (routes example_mesh) = WINC_MESH_MAX_NODES \<and>
   active (routes example_mesh ! 1) \<and> node_id (routes example_mesh ! 1) = 3 \<and>
   hop_count (routes example_mesh ! 1) = 2 \<and>
   routes (mesh_update_route 3 2 2 9000 example_mesh) ! 1 =
     (routes example_mesh ! 1)\<lparr>next_hop := 2, last_seen := 9000\<rparr>"
proof -
  have len: "length (routes example_mesh) = WINC_MESH_MAX_NODES"
    by (simp add: example_mesh_def WINC_MESH_MAX_NODES_def)
  have k: "(1::nat) < WINC_MESH_MAX_NODES"
    by (simp add: WINC_MESH_MAX_NODES_def)
  have act: "active (routes example_mesh ! 1)"
    and nid: "node_id (routes example_mesh ! 1) = 3"
    and hc: "2 = hop_count (routes example_mesh ! 1)"
    by (simp_all add: example_mesh_def)
  have first: "\<forall>j<1. \<not> (active (routes example_mesh ! j) \<and> node_id (routes example_mesh ! j) = 3)"
    by (simp add: example_mesh_def)
  from mesh_update_route_equal_hops [OF len k act nid first hc, of 2 9000] len act nid hc
  show ?thesis by metis
qed

section \<open>Claims about sending and forwarding\<close>

text \<open>
  C4. With the mesh enabled and no active slot for the destination,
  \<^verbatim>\<open>winc_mesh_send\<close> returns false and leaves the whole context as it was: the
  log of \<^verbatim>\<open>hif_put\<close> calls has no new entry, so \<^verbatim>\<open>put_sock_sendto\<close> was not
  called and nothing was queued, and the routing table, the sequence number and the rest
  of the mesh state are unchanged. No allocation is attempted either.
\<close>

theorem winc_mesh_send_no_route:
  assumes "enabled (mesh c)"
    and "length (routes (mesh c)) = WINC_MESH_MAX_NODES"
    and "unat (route_count (mesh c)) \<le> WINC_MESH_MAX_NODES"
    and "\<forall>i<WINC_MESH_MAX_NODES.
           \<not> (active (routes (mesh c) ! i) \<and> node_id (routes (mesh c) ! i) = dst)"
  shows "winc_mesh_send dst data len malloc_ok c = Some (False, c)"
  using mesh_find_route_none [OF assms(3,4)] by (simp add: winc_mesh_send_def)

text \<open>Node 1 of the example has routes to the nodes 2 and 3 and none to node 9.\<close>

theorem winc_mesh_send_no_route_witness:
  "enabled (mesh example_ctx) \<and>
   length (routes (mesh example_ctx)) = WINC_MESH_MAX_NODES \<and>
   unat (route_count (mesh example_ctx)) \<le> WINC_MESH_MAX_NODES \<and>
   winc_mesh_send 9 [104, 105] 2 True example_ctx = Some (False, example_ctx)"
proof -
  have en: "enabled (mesh example_ctx)"
    by (simp add: example_ctx_def example_mesh_def)
  have len: "length (routes (mesh example_ctx)) = WINC_MESH_MAX_NODES"
    by (simp add: example_ctx_def example_mesh_def WINC_MESH_MAX_NODES_def)
  have rc: "unat (route_count (mesh example_ctx)) \<le> WINC_MESH_MAX_NODES"
    by (simp add: example_ctx_def example_mesh_def WINC_MESH_MAX_NODES_def)
  have none: "\<forall>i<WINC_MESH_MAX_NODES. \<not> (active (routes (mesh example_ctx) ! i) \<and>
                                node_id (routes (mesh example_ctx) ! i) = 9)"
    by (simp add: all_slots example_ctx_def example_mesh_def empty_route_def)
  from winc_mesh_send_no_route [OF en len rc none] en len rc show ?thesis by blast
qed



section \<open>Claims about route expiry\<close>

text \<open>
  C5. A maintenance sweep (\<^verbatim>\<open>winc_mesh_process\<close> with the mesh enabled) returns,
  and after it no slot whose timestamp is older than the route timeout is active
  (the age is \<^verbatim>\<open>now - last_seen\<close> in 32-bit arithmetic, as the code computes it,
  and the timeout is 30000 ms). Route lookup returns the next hop of the slot
  \<^verbatim>\<open>best\<close> that its search ends with, and that slot is active whenever the lookup
  succeeds, in any state \<open>m\<close>; a search that ends without a slot gives \<open>-1\<close>. So
  after the sweep every successful lookup comes from an active slot for the
  destination that is not older than the timeout.
\<close>

theorem route_expiry:
  assumes "enabled (mesh c)" "routes_inv (mesh c)" "ctx_ok c"
  shows "(\<exists>c'. winc_mesh_process now c = Some c' \<and>
           (\<forall>i<WINC_MESH_MAX_NODES.
              WINC_MESH_ROUTE_TIMEOUT_MS < now - last_seen (routes (mesh c) ! i) \<longrightarrow>
              \<not> active (routes (mesh c') ! i)) \<and>
           (\<forall>dst. 0 \<le> mesh_find_route (mesh c') dst \<longrightarrow>
              (\<exists>i<WINC_MESH_MAX_NODES. active (routes (mesh c') ! i) \<and>
                 node_id (routes (mesh c') ! i) = dst \<and>
                 \<not> WINC_MESH_ROUTE_TIMEOUT_MS < now - last_seen (routes (mesh c') ! i) \<and>
                 mesh_find_route (mesh c') dst = uint (next_hop (routes (mesh c') ! i))))) \<and>
         (0 \<le> find_best (routes m) d (unat (route_count m)) 0 (-1) 255 \<longrightarrow>
            active (routes m ! nat (find_best (routes m) d (unat (route_count m)) 0 (-1) 255)) \<and>
            node_id (routes m ! nat (find_best (routes m) d (unat (route_count m)) 0 (-1) 255)) = d \<and>
            mesh_find_route m d =
              uint (next_hop (routes m ! nat (find_best (routes m) d (unat (route_count m)) 0 (-1) 255)))) \<and>
         (find_best (routes m) d (unat (route_count m)) 0 (-1) 255 < 0 \<longrightarrow>
            mesh_find_route m d = -1)"
proof -
  from winc_mesh_process_result [OF assms(1,3), of now] obtain c' where
    res: "winc_mesh_process now c = Some c'"
    and rts: "routes (mesh c') = timeout_routes now (unat (route_count (mesh c))) 0 (routes (mesh c))"
    and rcs: "route_count (mesh c') = route_count (mesh c)"
    by blast
  from assms(2) have len: "length (routes (mesh c)) = WINC_MESH_MAX_NODES"
    and rc: "unat (route_count (mesh c)) \<le> length (routes (mesh c))"
    and rc8: "unat (route_count (mesh c)) \<le> WINC_MESH_MAX_NODES"
    and below: "\<And>i. i < WINC_MESH_MAX_NODES \<Longrightarrow> active (routes (mesh c) ! i) \<Longrightarrow>
                  i < unat (route_count (mesh c))"
    by (auto simp: routes_inv_def)
  have nth: "routes (mesh c') ! i =
      (if i < unat (route_count (mesh c)) \<and> active (routes (mesh c) ! i) \<and>
          WINC_MESH_ROUTE_TIMEOUT_MS < now - last_seen (routes (mesh c) ! i)
       then (routes (mesh c) ! i)\<lparr>active := False\<rparr> else routes (mesh c) ! i)"
    if "i < WINC_MESH_MAX_NODES" for i
    using timeout_routes_nth [OF rc, of i now 0] that len rts by simp
  have swept: "\<forall>i<WINC_MESH_MAX_NODES.
              WINC_MESH_ROUTE_TIMEOUT_MS < now - last_seen (routes (mesh c) ! i) \<longrightarrow>
              \<not> active (routes (mesh c') ! i)"
    using nth below by auto
  have fresh: "\<not> WINC_MESH_ROUTE_TIMEOUT_MS < now - last_seen (routes (mesh c') ! i)"
    if "i < WINC_MESH_MAX_NODES" "active (routes (mesh c') ! i)" for i
    using nth [OF that(1)] that(2) below [OF that(1)] by (auto split: if_splits)
  have lookup: "active (routes m ! nat (find_best (routes m) dst (unat (route_count m)) 0 (-1) 255)) \<and>
              node_id (routes m ! nat (find_best (routes m) dst (unat (route_count m)) 0 (-1) 255)) = dst \<and>
              mesh_find_route m dst =
                uint (next_hop (routes m ! nat (find_best (routes m) dst (unat (route_count m)) 0 (-1) 255)))"
    if "0 \<le> find_best (routes m) dst (unat (route_count m)) 0 (-1) 255" for m dst
    using find_best_slot [OF that] that by (simp add: mesh_find_route_def)
  have nolookup: "mesh_find_route m dst = -1"
    if "find_best (routes m) dst (unat (route_count m)) 0 (-1) 255 < 0" for m dst
    using that by (simp add: mesh_find_route_def)
  have used: "\<exists>i<WINC_MESH_MAX_NODES. active (routes (mesh c') ! i) \<and>
                 node_id (routes (mesh c') ! i) = dst \<and>
                 \<not> WINC_MESH_ROUTE_TIMEOUT_MS < now - last_seen (routes (mesh c') ! i) \<and>
                 mesh_find_route (mesh c') dst = uint (next_hop (routes (mesh c') ! i))"
    if "0 \<le> mesh_find_route (mesh c') dst" for dst
  proof -
    let ?b = "find_best (routes (mesh c')) dst (unat (route_count (mesh c'))) 0 (-1) 255"
    from that have b0: "0 \<le> ?b"
      by (simp add: mesh_find_route_def Let_def split: if_splits)
    from find_best_slot [OF b0] rcs rc8
    have bn: "nat ?b < WINC_MESH_MAX_NODES" and ba: "active (routes (mesh c') ! nat ?b)"
      and bd: "node_id (routes (mesh c') ! nat ?b) = dst"
      by auto
    from lookup [OF b0] fresh [OF bn ba] bn ba bd show ?thesis by blast
  qed
  from res swept used have "\<exists>c'. winc_mesh_process now c = Some c' \<and>
           (\<forall>i<WINC_MESH_MAX_NODES.
              WINC_MESH_ROUTE_TIMEOUT_MS < now - last_seen (routes (mesh c) ! i) \<longrightarrow>
              \<not> active (routes (mesh c') ! i)) \<and>
           (\<forall>dst. 0 \<le> mesh_find_route (mesh c') dst \<longrightarrow>
              (\<exists>i<WINC_MESH_MAX_NODES. active (routes (mesh c') ! i) \<and>
                 node_id (routes (mesh c') ! i) = dst \<and>
                 \<not> WINC_MESH_ROUTE_TIMEOUT_MS < now - last_seen (routes (mesh c') ! i) \<and>
                 mesh_find_route (mesh c') dst = uint (next_hop (routes (mesh c') ! i))))"
    by blast
  with lookup [of m d] nolookup [of m d] show ?thesis by blast
qed

text \<open>
  In the example both routes were last seen at 4000 ms; a sweep at 40000 ms finds
  them 36000 ms old and clears both.
\<close>

theorem route_expiry_witness:
  "enabled (mesh example_ctx) \<and> routes_inv (mesh example_ctx) \<and> ctx_ok example_ctx \<and>
   active (routes (mesh example_ctx) ! 0) \<and> active (routes (mesh example_ctx) ! 1) \<and>
   WINC_MESH_ROUTE_TIMEOUT_MS < 40000 - last_seen (routes (mesh example_ctx) ! 0) \<and>
   WINC_MESH_ROUTE_TIMEOUT_MS < 40000 - last_seen (routes (mesh example_ctx) ! 1) \<and>
   (\<exists>c'. winc_mesh_process 40000 example_ctx = Some c' \<and>
          \<not> active (routes (mesh c') ! 0) \<and> \<not> active (routes (mesh c') ! 1))"
proof -
  have en: "enabled (mesh example_ctx)"
    by (simp add: example_ctx_def example_mesh_def)
  have inv: "routes_inv (mesh example_ctx)"
    by (simp add: example_routes_inv)
  have ok: "ctx_ok example_ctx"
    by (rule example_ctx_ok)
  have act: "active (routes (mesh example_ctx) ! 0)" "active (routes (mesh example_ctx) ! 1)"
    by (simp_all add: example_ctx_def example_mesh_def)
  have old: "WINC_MESH_ROUTE_TIMEOUT_MS < 40000 - last_seen (routes (mesh example_ctx) ! 0)"
    "WINC_MESH_ROUTE_TIMEOUT_MS < 40000 - last_seen (routes (mesh example_ctx) ! 1)"
    by (simp_all add: example_ctx_def example_mesh_def WINC_MESH_ROUTE_TIMEOUT_MS_def)
  have slots: "(0::nat) < WINC_MESH_MAX_NODES" "(1::nat) < WINC_MESH_MAX_NODES"
    by (simp_all add: WINC_MESH_MAX_NODES_def)
  from route_expiry [OF en inv ok, of 40000] obtain c' where
    "winc_mesh_process 40000 example_ctx = Some c'"
    "\<forall>i<WINC_MESH_MAX_NODES.
        WINC_MESH_ROUTE_TIMEOUT_MS < 40000 - last_seen (routes (mesh example_ctx) ! i) \<longrightarrow>
        \<not> active (routes (mesh c') ! i)"
    by blast
  with old slots have "\<exists>c'. winc_mesh_process 40000 example_ctx = Some c' \<and>
          \<not> active (routes (mesh c') ! 0) \<and> \<not> active (routes (mesh c') ! 1)"
    by blast
  with en inv ok act old show ?thesis by blast
qed

section \<open>Claims about the route count\<close>



section \<open>Claims about the socket layer\<close>

text \<open>
  C8. For a socket of the pool, \<^verbatim>\<open>put_sock_sendto\<close> makes one call of
  \<^verbatim>\<open>hif_put\<close> with a \<^verbatim>\<open>SENDTO\<close> command and the payload in the same message, the
  payload at the offset \<^verbatim>\<open>UDP_DATA_OSET\<close> = 68 (for a payload that is not empty the
  declared length of the message is header, offset and payload, and the writes of
  \<^verbatim>\<open>hif_put\<close> put the command 8 bytes and the payload 8 + 68 bytes behind the
  start of the message). If the stored
  remote address is zero, the command carries 255.255.255.255; if the stored remote
  port is zero, it carries the local port of the socket, byte-swapped as every port
  of a command is, so that its two bytes in memory are the local port in network
  order.
\<close>

theorem put_sock_sendto_destination:
  assumes "unat s < MAX_SOCKETS"
  shows "\<exists>sc. put_sock_sendto s data len c =
            Some (hif_ok c (length (hif_log c)),
                  c\<lparr>hif_log := hif_log c @
                      [\<lparr>gop = GOP_SENDTO OR REQ_DATA, dp1 = Sendto sc, dlen1 = 16,
                        dp2 = Some data, dlen2 = len, oset = 68\<rparr>]\<rparr>) \<and>
           (ip (addr (sockets c ! unat s)) = 0 \<longrightarrow> ip (sc_saddr sc) = 0xFFFFFFFF) \<and>
           (ip (addr (sockets c ! unat s)) \<noteq> 0 \<longrightarrow> ip (sc_saddr sc) = ip (addr (sockets c ! unat s))) \<and>
           (port (addr (sockets c ! unat s)) = 0 \<longrightarrow>
              port (sc_saddr sc) = swap16 (localport (sockets c ! unat s)) \<and>
              u16_bytes (port (sc_saddr sc)) = rev (u16_bytes (localport (sockets c ! unat s)))) \<and>
           (len \<noteq> 0 \<longrightarrow>
              hif_dlen \<lparr>gop = GOP_SENDTO OR REQ_DATA, dp1 = Sendto sc, dlen1 = 16,
                        dp2 = Some data, dlen2 = len, oset = 68\<rparr> = 8 + 68 + len \<and>
              hif_writes a \<lparr>gop = GOP_SENDTO OR REQ_DATA, dp1 = Sendto sc, dlen1 = 16,
                          dp2 = Some data, dlen2 = len, oset = 68\<rparr> =
                [Write_hdr a (hif_hdr \<lparr>gop = GOP_SENDTO OR REQ_DATA, dp1 = Sendto sc, dlen1 = 16,
                                       dp2 = Some data, dlen2 = len, oset = 68\<rparr>),
                 Write_cmd (a + 8) (Sendto sc) 16, Write_data (a + 76) data len])"
  apply (rule exI [of _ "sendto_cmd (sockets c ! unat s) s len"])
  using assms
  by (simp add: put_sock_sendto_in_range UDP_DATA_OSET_def sendto_cmd_def Let_def
        u16_bytes_swap16 hif_dlen_def hif_writes_def HIF_HDR_SIZE_def)

text \<open>
  The socket on slot 8 of the example has no remote address yet; its local port is
  2000 (\<open>0x07D0\<close>), which the command carries as \<open>0xD007\<close>.
\<close>

theorem put_sock_sendto_destination_witness:
  "unat (8::u8) < MAX_SOCKETS \<and>
   ip (addr (sockets example_ctx ! unat (8::u8))) = 0 \<and>
   port (addr (sockets example_ctx ! unat (8::u8))) = 0 \<and>
   localport (sockets example_ctx ! unat (8::u8)) = 2000 \<and>
   (\<exists>sc. put_sock_sendto 8 [1, 2, 3] 3 example_ctx =
            Some (hif_ok example_ctx (length (hif_log example_ctx)),
                  example_ctx\<lparr>hif_log := hif_log example_ctx @
                      [\<lparr>gop = GOP_SENDTO OR REQ_DATA, dp1 = Sendto sc, dlen1 = 16,
                        dp2 = Some [1, 2, 3], dlen2 = 3, oset = 68\<rparr>]\<rparr>) \<and>
          ip (sc_saddr sc) = 0xFFFFFFFF \<and> port (sc_saddr sc) = 0xD007)"
proof -
  have sk: "unat (8::u8) < MAX_SOCKETS"
    by (simp add: MAX_SOCKETS_def)
  have ip0: "ip (addr (sockets example_ctx ! unat (8::u8))) = 0"
    and port0: "port (addr (sockets example_ctx ! unat (8::u8))) = 0"
    and lp: "localport (sockets example_ctx ! unat (8::u8)) = 2000"
    by (simp_all add: pending_socket_def)
  have sw: "swap16 2000 = 0xD007"
    by (simp add: swap16_def)
  from put_sock_sendto_destination [OF sk, of "[1, 2, 3]" 3 example_ctx] obtain sc where
    "put_sock_sendto 8 [1, 2, 3] 3 example_ctx =
            Some (hif_ok example_ctx (length (hif_log example_ctx)),
                  example_ctx\<lparr>hif_log := hif_log example_ctx @
                      [\<lparr>gop = GOP_SENDTO OR REQ_DATA, dp1 = Sendto sc, dlen1 = 16,
                        dp2 = Some [1, 2, 3], dlen2 = 3, oset = 68\<rparr>]\<rparr>)"
    "ip (addr (sockets example_ctx ! unat (8::u8))) = 0 \<longrightarrow> ip (sc_saddr sc) = 0xFFFFFFFF"
    "port (addr (sockets example_ctx ! unat (8::u8))) = 0 \<longrightarrow>
       port (sc_saddr sc) = swap16 (localport (sockets example_ctx ! unat (8::u8)))"
    by blast
  with ip0 port0 lp sw have "\<exists>sc. put_sock_sendto 8 [1, 2, 3] 3 example_ctx =
            Some (hif_ok example_ctx (length (hif_log example_ctx)),
                  example_ctx\<lparr>hif_log := hif_log example_ctx @
                      [\<lparr>gop = GOP_SENDTO OR REQ_DATA, dp1 = Sendto sc, dlen1 = 16,
                        dp2 = Some [1, 2, 3], dlen2 = 3, oset = 68\<rparr>]\<rparr>) \<and>
          ip (sc_saddr sc) = 0xFFFFFFFF \<and> port (sc_saddr sc) = 0xD007"
    by (intro exI [of _ sc]) simp
  with sk ip0 port0 lp show ?thesis by blast
qed

text \<open>
  C9. With the pool of ten slots, \<^verbatim>\<open>open_sock_server\<close> returns. Its result is
  \<open>-1\<close> or an index of the range of its kind with the upper bound excluded: 0 to 6
  for a connection-oriented socket, 7 to 9 for a connectionless one, so slot 10 does
  not exist and at most three connectionless sockets are open. A slot returned was
  closed, is the first closed slot of the range, is in \<^verbatim>\<open>STATE_BINDING\<close>
  afterwards with the handler given, and no other slot has changed. The result is
  \<open>-1\<close> exactly when no slot of the range is closed, and then the context is
  unchanged.
\<close>

theorem open_sock_server_range:
  assumes "length (sockets c) = MAX_SOCKETS"
  shows "\<exists>r c'. open_sock_server portnum tcp h c = Some (r, c') \<and>
           (r = -1 \<or> (if tcp then 0 \<le> r \<and> r \<le> 6 else 7 \<le> r \<and> r \<le> 9)) \<and>
           (0 \<le> r \<longrightarrow>
              state (sockets c ! nat r) = STATE_CLOSED \<and>
              state (sockets c' ! nat r) = STATE_BINDING \<and>
              handler (sockets c' ! nat r) = h \<and>
              (\<forall>j<MAX_SOCKETS. j \<noteq> nat r \<longrightarrow> sockets c' ! j = sockets c ! j) \<and>
              (\<forall>j. (if tcp then 0 else 7) \<le> j \<and> j < nat r \<longrightarrow>
                   state (sockets c ! j) \<noteq> STATE_CLOSED)) \<and>
           (r = -1 \<longleftrightarrow>
              (\<forall>j. (if tcp then 0 else 7) \<le> j \<and> j < (if tcp then 7 else 10) \<longrightarrow>
                   state (sockets c ! j) \<noteq> STATE_CLOSED)) \<and>
           (r = -1 \<longrightarrow> c' = c)"
proof -
  let ?smin = "if tcp then MIN_TCP_SOCK else MIN_UDP_SOCK"
  let ?smax = "if tcp then MAX_TCP_SOCK else MAX_UDP_SOCK"
  have le: "?smax \<le> MAX_SOCKETS"
    by (simp add: MAX_TCP_SOCK_def MAX_UDP_SOCK_def MAX_SOCKETS_def)
  from open_sock_loop_spec [OF le assms, of portnum h ?smin] obtain r c' where
    r: "open_sock_server portnum tcp h c = Some (r, c')"
    and d: "(r = -1 \<and> c' = c \<and> (\<forall>j. ?smin \<le> j \<and> j < ?smax \<longrightarrow> state (sockets c ! j) \<noteq> 0)) \<or>
            (int ?smin \<le> r \<and> r < int ?smax \<and> state (sockets c ! nat r) = 0 \<and>
             (\<forall>j. ?smin \<le> j \<and> j < nat r \<longrightarrow> state (sockets c ! j) \<noteq> 0) \<and>
             length (sockets c') = MAX_SOCKETS \<and>
             state (sockets c' ! nat r) = STATE_BINDING \<and>
             handler (sockets c' ! nat r) = h \<and>
             (\<forall>j<MAX_SOCKETS. j \<noteq> nat r \<longrightarrow> sockets c' ! j = sockets c ! j))"
    unfolding open_sock_server_def by blast
  from d show ?thesis
  proof
    assume "r = -1 \<and> c' = c \<and> (\<forall>j. ?smin \<le> j \<and> j < ?smax \<longrightarrow> state (sockets c ! j) \<noteq> 0)"
    with r show ?thesis
      by (intro exI [of _ r] exI [of _ c'])
         (simp add: STATE_CLOSED_def MIN_TCP_SOCK_def MIN_UDP_SOCK_def MAX_TCP_SOCK_def
            MAX_UDP_SOCK_def)
  next
    assume t: "int ?smin \<le> r \<and> r < int ?smax \<and> state (sockets c ! nat r) = 0 \<and>
             (\<forall>j. ?smin \<le> j \<and> j < nat r \<longrightarrow> state (sockets c ! j) \<noteq> 0) \<and>
             length (sockets c') = MAX_SOCKETS \<and>
             state (sockets c' ! nat r) = STATE_BINDING \<and>
             handler (sockets c' ! nat r) = h \<and>
             (\<forall>j<MAX_SOCKETS. j \<noteq> nat r \<longrightarrow> sockets c' ! j = sockets c ! j)"
    then have r0: "0 \<le> r" "r \<noteq> -1" by auto
    have free: "\<not> (\<forall>j. (if tcp then 0 else 7) \<le> j \<and> j < (if tcp then 7 else 10) \<longrightarrow>
                   state (sockets c ! j) \<noteq> STATE_CLOSED)"
    proof
      assume "\<forall>j. (if tcp then 0 else 7) \<le> j \<and> j < (if tcp then 7 else 10) \<longrightarrow>
                   state (sockets c ! j) \<noteq> STATE_CLOSED"
      moreover from t r0 have "(if tcp then 0 else 7) \<le> nat r \<and> nat r < (if tcp then 7 else 10)"
        by (auto simp: MIN_TCP_SOCK_def MIN_UDP_SOCK_def MAX_TCP_SOCK_def MAX_UDP_SOCK_def)
      ultimately have "state (sockets c ! nat r) \<noteq> STATE_CLOSED" by blast
      with t show False by (simp add: STATE_CLOSED_def)
    qed
    from t r0 have rng: "if tcp then 0 \<le> r \<and> r \<le> 6 else 7 \<le> r \<and> r \<le> 9"
      by (auto simp: MIN_TCP_SOCK_def MIN_UDP_SOCK_def MAX_TCP_SOCK_def MAX_UDP_SOCK_def)
    from t have first: "\<forall>j. (if tcp then 0 else 7) \<le> j \<and> j < nat r \<longrightarrow>
                   state (sockets c ! j) \<noteq> STATE_CLOSED"
      by (simp add: STATE_CLOSED_def MIN_TCP_SOCK_def MIN_UDP_SOCK_def)
    from t have rest: "state (sockets c ! nat r) = STATE_CLOSED"
      "state (sockets c' ! nat r) = STATE_BINDING" "handler (sockets c' ! nat r) = h"
      "\<forall>j<MAX_SOCKETS. j \<noteq> nat r \<longrightarrow> sockets c' ! j = sockets c ! j"
      by (simp_all add: STATE_CLOSED_def)
    from r r0 free rng first rest show ?thesis
      by (intro exI [of _ r] exI [of _ c']) simp
  qed
qed

text \<open>
  In the example slots 7 and 8 are taken, so a new connectionless socket gets slot 9;
  with slot 9 taken as well the call fails and changes nothing, although the slots 0
  to 6 are free.
\<close>

theorem open_sock_server_range_witness:
  "length (sockets example_ctx) = MAX_SOCKETS \<and> length (sockets example_full) = MAX_SOCKETS \<and>
   (\<exists>c'. open_sock_server 3000 False (Some H_udp_echo) example_ctx = Some (9, c') \<and>
          state (sockets c' ! 9) = STATE_BINDING) \<and>
   open_sock_server 3000 False (Some H_udp_echo) example_full = Some (-1, example_full)"
proof -
  have st: "state (sockets example_ctx ! 7) \<noteq> STATE_CLOSED"
    "state (sockets example_ctx ! 8) \<noteq> STATE_CLOSED"
    "state (sockets example_ctx ! 9) = STATE_CLOSED"
    by (simp_all add: example_socket_def pending_socket_def zero_socket_def STATE_CLOSED_def)
  have stf: "\<forall>j. (if False then 0 else 7) \<le> j \<and> j < (if False then 7 else 10) \<longrightarrow>
                state (sockets example_full ! j) \<noteq> STATE_CLOSED"
    by (auto simp: udp_slots example_full_def nth_append example_socket_def pending_socket_def
          STATE_CLOSED_def)
  from open_sock_server_range [OF full_len, of 3000 False "Some H_udp_echo"] stf
  have full: "open_sock_server 3000 False (Some H_udp_echo) example_full = Some (-1, example_full)"
    by auto
  from open_sock_server_range [OF example_len, of 3000 False "Some H_udp_echo"] obtain r c' where
    r: "open_sock_server 3000 False (Some H_udp_echo) example_ctx = Some (r, c')"
    and rng: "r = -1 \<or> (7 \<le> r \<and> r \<le> 9)"
    and ok: "0 \<le> r \<longrightarrow> state (sockets example_ctx ! nat r) = STATE_CLOSED \<and>
              state (sockets c' ! nat r) = STATE_BINDING"
    and none: "r = -1 \<longleftrightarrow> (\<forall>j. 7 \<le> j \<and> j < 10 \<longrightarrow> state (sockets example_ctx ! j) \<noteq> STATE_CLOSED)"
    by auto
  from none st(3) have "r \<noteq> -1" by (auto simp: udp_slots)
  with rng have "r = 7 \<or> r = 8 \<or> r = 9" by arith
  with ok st have "r = 9" by auto
  with r ok have "\<exists>c'. open_sock_server 3000 False (Some H_udp_echo) example_ctx = Some (9, c') \<and>
          state (sockets c' ! 9) = STATE_BINDING"
    by auto
  with example_len full_len full show ?thesis by blast
qed

section \<open>Claims about the dispatch of responses\<close>






end
